theory Spec2Isabelle
  imports Complex_Main
begin

section \<open>Python strings\<close>

text \<open>
  The module \<^verbatim>\<open>lib/hiscores/rs_api.py\<close> works on Python \<^verbatim>\<open>str\<close> values. A
  \<^verbatim>\<open>str\<close> is a sequence of code points; here it is a \<^typ>\<open>string\<close>, so the model
  covers the code points below 256, and every built-in is written out for that range.
\<close>

definition isspace :: "char \<Rightarrow> bool" where
  \<comment> \<open>\<^verbatim>\<open>str.isspace\<close> of one character: the set \<^verbatim>\<open>str.strip()\<close> removes.\<close>
  "isspace c =
     (let n = (of_char c :: nat)
      in (9 \<le> n \<and> n \<le> 13) \<or> (28 \<le> n \<and> n \<le> 32) \<or> n = 133 \<or> n = 160)"

definition strip :: "string \<Rightarrow> string" where
  \<comment> \<open>\<^verbatim>\<open>text.strip()\<close>\<close>
  "strip s = rev (dropWhile isspace (rev (dropWhile isspace s)))"

fun str_split :: "char \<Rightarrow> string \<Rightarrow> string list" where
  \<comment> \<open>\<^verbatim>\<open>s.split(sep)\<close> for a separator of one character; never the empty list.\<close>
  "str_split sep [] = [[]]"
| "str_split sep (c # cs) =
     (if c = sep then [] # str_split sep cs
      else (case str_split sep cs of
              [] \<Rightarrow> [[c]]
            | w # ws \<Rightarrow> (c # w) # ws))"

definition isupper :: "char \<Rightarrow> bool" where
  \<comment> \<open>the characters below 256 that \<^verbatim>\<open>str.lower()\<close> changes\<close>
  "isupper c =
     (let n = (of_char c :: nat)
      in (65 \<le> n \<and> n \<le> 90) \<or> (192 \<le> n \<and> n \<le> 222 \<and> n \<noteq> 215))"

definition lower_char :: "char \<Rightarrow> char" where
  "lower_char c = (if isupper c then char_of ((of_char c :: nat) + 32) else c)"

definition lower :: "string \<Rightarrow> string" where
  \<comment> \<open>\<^verbatim>\<open>player.lower()\<close>\<close>
  "lower s = map lower_char s"

fun startswith :: "string \<Rightarrow> string \<Rightarrow> bool" where
  \<comment> \<open>\<^verbatim>\<open>s.startswith(p)\<close>, written \<open>startswith p s\<close>\<close>
  "startswith [] s = True"
| "startswith (p # ps) [] = False"
| "startswith (p # ps) (c # cs) = (p = c \<and> startswith ps cs)"

fun str_in :: "string \<Rightarrow> string \<Rightarrow> bool" where
  \<comment> \<open>\<^verbatim>\<open>sub in s\<close>\<close>
  "str_in sub [] = (sub = [])"
| "str_in sub (c # cs) = (startswith sub (c # cs) \<or> str_in sub cs)"

definition replace_char :: "char \<Rightarrow> char \<Rightarrow> string \<Rightarrow> string" where
  \<comment> \<open>\<^verbatim>\<open>s.replace(old, new)\<close> for \<^verbatim>\<open>old\<close> and \<^verbatim>\<open>new\<close> of one character\<close>
  "replace_char old new s = map (\<lambda>c. if c = old then new else c) s"

fun join :: "string \<Rightarrow> string list \<Rightarrow> string" where
  \<comment> \<open>\<^verbatim>\<open>sep.join(parts)\<close>\<close>
  "join sep [] = []"
| "join sep [p] = p"
| "join sep (p # q # ps) = p @ sep @ join sep (q # ps)"

subsection \<open>\<^verbatim>\<open>int(s)\<close>\<close>

text \<open>
  \<^verbatim>\<open>int(s)\<close> on a \<^verbatim>\<open>str\<close>: surrounding white space is dropped (the set is smaller
  than that of \<^verbatim>\<open>strip\<close>: the separators 28 to 31 are not accepted), one sign may
  follow, then decimal digits, single underscores allowed between two digits. Anything
  else raises \<^verbatim>\<open>ValueError\<close>, here \<open>None\<close>. The result is an unbounded integer; the
  interpreter's configurable limit on the number of digits is not part of the model.
\<close>

definition int_space :: "char \<Rightarrow> bool" where
  "int_space c =
     (let n = (of_char c :: nat)
      in (9 \<le> n \<and> n \<le> 13) \<or> n = 32 \<or> n = 133 \<or> n = 160)"

definition isdigit :: "char \<Rightarrow> bool" where
  "isdigit c = (let n = (of_char c :: nat) in 48 \<le> n \<and> n \<le> 57)"

definition digit_val :: "char \<Rightarrow> nat" where
  "digit_val c = of_char c - 48"

fun digits_from :: "nat \<Rightarrow> string \<Rightarrow> nat option" where
  \<comment> \<open>the rest of a literal after at least one digit, whose value so far is \<open>acc\<close>\<close>
  "digits_from acc [] = Some acc"
| "digits_from acc [c] = (if isdigit c then Some (10 * acc + digit_val c) else None)"
| "digits_from acc (c # d # cs) =
     (if isdigit c then digits_from (10 * acc + digit_val c) (d # cs)
      else if c = CHR ''_'' \<and> isdigit d then digits_from (10 * acc + digit_val d) cs
      else None)"

definition unsigned_literal :: "string \<Rightarrow> nat option" where
  "unsigned_literal s =
     (case s of
        [] \<Rightarrow> None
      | c # cs \<Rightarrow> if isdigit c then digits_from (digit_val c) cs else None)"

definition py_int :: "string \<Rightarrow> int option" where
  "py_int s =
     (case rev (dropWhile int_space (rev (dropWhile int_space s))) of
        [] \<Rightarrow> None
      | c # cs \<Rightarrow>
          if c = CHR ''-'' then map_option (\<lambda>n. - int n) (unsigned_literal cs)
          else if c = CHR ''+'' then map_option int (unsigned_literal cs)
          else map_option int (unsigned_literal (c # cs)))"

section \<open>The endpoint selector\<close>

definition HISCORES_API :: string where
  "HISCORES_API = ''https://secure.runescape.com/m=hiscore_oldschool/index_lite.ws''"

definition HISCORES_IRONMAN_API :: string where
  "HISCORES_IRONMAN_API =
     ''https://secure.runescape.com/m=hiscore_oldschool_ironman/index_lite.ws''"

definition get_hiscores_api :: "string \<Rightarrow> string" where
  "get_hiscores_api player =
     (if str_in ''iron'' (lower player) then HISCORES_IRONMAN_API else HISCORES_API)"

section \<open>Constants, dictionaries, exceptions\<close>

text \<open>
  The module imports its two catalogs and two schemas from \<^verbatim>\<open>lib/hiscores/constants.py\<close>.
  The functions below take them as a parameter, so every theorem holds whatever their
  values are (under the hypotheses it names).
\<close>

record constants =
  HISCORES_RESPONSE_SKILL_COLS :: "string list"
  HISCORE_RESPONSE_ACTIVITY_COLS :: "string list"
  HISCORES_RESPONSE_SKILLS :: "string list"
  HISCORES_RESPONSE_ACTIVITIES :: "string list"

definition constants_example :: constants where
  \<comment> \<open>Modelled from the spec: \<^verbatim>\<open>constants.py\<close> is missing. The schemas are the fields
      the spec's data model names (rank, level, experience; rank, score); the catalogs
      are cut to two labels each, to evaluate the functions on short payloads.\<close>
  "constants_example =
     \<lparr> HISCORES_RESPONSE_SKILL_COLS = [''rank'', ''level'', ''experience''],
       HISCORE_RESPONSE_ACTIVITY_COLS = [''rank'', ''score''],
       HISCORES_RESPONSE_SKILLS = [''Overall'', ''Attack''],
       HISCORES_RESPONSE_ACTIVITIES = [''League Points'', ''Clue Scrolls (all)''] \<rparr>"

text \<open>
  A Python \<^verbatim>\<open>dict\<close> keeps its keys in insertion order; storing under a key that is
  present replaces the value where it stands. It is an association list with distinct
  keys.
\<close>

type_synonym ('k, 'v) py_dict = "('k \<times> 'v) list"

fun dict_set :: "'k \<Rightarrow> 'v \<Rightarrow> ('k, 'v) py_dict \<Rightarrow> ('k, 'v) py_dict" where
  \<comment> \<open>\<^verbatim>\<open>d[k] = v\<close>\<close>
  "dict_set k v [] = [(k, v)]"
| "dict_set k v ((k', v') # d) = (if k' = k then (k, v) # d else (k', v') # dict_set k v d)"

definition dict :: "('k \<times> 'v) list \<Rightarrow> ('k, 'v) py_dict" where
  \<comment> \<open>\<^verbatim>\<open>dict(pairs)\<close>\<close>
  "dict ps = foldl (\<lambda>d (k, v). dict_set k v d) [] ps"

definition keys :: "('k, 'v) py_dict \<Rightarrow> 'k list" where
  "keys d = map fst d"

datatype message =
    Schema_invalid_for_line "string list" string
  | Invalid_literal_for_int string
  | Timed_out real
  | Returned_html string
  | Received_status_code int string string
  | Skill_line_malformatted
  | Activity_line_malformatted
  | Invalid_query string

datatype exn =
    InvalidSchemaError message
  | HiscoresDownError message
  | ValueError message
  | ValueError_from message exn
  | RequestException string

datatype warning =
    Slow_response int
  | Unexpected_number_of_lines

section \<open>Parsing the response text\<close>

definition int_of_str :: "string \<Rightarrow> exn + int" where
  \<comment> \<open>\<^verbatim>\<open>int(field)\<close> with its \<^verbatim>\<open>ValueError\<close>\<close>
  "int_of_str s =
     (case py_int s of
        None \<Rightarrow> Inl (ValueError (Invalid_literal_for_int s))
      | Some n \<Rightarrow> Inr n)"

fun zip_map :: "('b \<Rightarrow> exn + 'c) \<Rightarrow> 'a list \<Rightarrow> 'b list \<Rightarrow> exn + ('a \<times> 'c) list" where
  \<comment> \<open>\<^verbatim>\<open>zip(labels, map(f, items))\<close> run to its end, as \<^verbatim>\<open>dict\<close> does. Both are lazy:
      \<^verbatim>\<open>zip\<close> asks \<^verbatim>\<open>labels\<close> first and stops when they are used up, so \<open>f\<close> is
      never applied to an item beyond the labels; the first raise of \<open>f\<close> ends the run.\<close>
  "zip_map f [] ys = Inr []"
| "zip_map f (x # xs) [] = Inr []"
| "zip_map f (x # xs) (y # ys) =
     (case f y of
        Inl e \<Rightarrow> Inl e
      | Inr v \<Rightarrow>
          (case zip_map f xs ys of
             Inl e \<Rightarrow> Inl e
           | Inr ps \<Rightarrow> Inr ((x, v) # ps)))"

definition parse_hiscores_response_line ::
  "string \<Rightarrow> string list \<Rightarrow> exn + (string, int) py_dict" where
  \<comment> \<open>\<^verbatim>\<open>_parse_hiscores_response_line(line, schema)\<close>\<close>
  "parse_hiscores_response_line line schema =
     (let split_line = str_split CHR '','' line
      in if length schema \<noteq> length split_line
         then Inl (InvalidSchemaError (Schema_invalid_for_line schema line))
         else map_sum id dict (zip_map int_of_str schema split_line))"

definition parse_skill_line :: "constants \<Rightarrow> string \<Rightarrow> exn + (string, int) py_dict" where
  "parse_skill_line c line =
     parse_hiscores_response_line line (HISCORES_RESPONSE_SKILL_COLS c)"

definition parse_activity_line :: "constants \<Rightarrow> string \<Rightarrow> exn + (string, int) py_dict" where
  "parse_activity_line c line =
     parse_hiscores_response_line line (HISCORE_RESPONSE_ACTIVITY_COLS c)"

record stats =
  skills :: "(string, (string, int) py_dict) py_dict"
  activities :: "(string, (string, int) py_dict) py_dict"

definition sanitize_hiscores_stats :: "constants \<Rightarrow> string \<Rightarrow> warning list \<times> (exn + stats)" where
  \<comment> \<open>The first component is what the function logs, the second what it returns or
      raises. Only \<^verbatim>\<open>InvalidSchemaError\<close> is caught and raised again as
      \<^verbatim>\<open>ValueError\<close>; the \<^verbatim>\<open>ValueError\<close> of \<^verbatim>\<open>int\<close> passes through.\<close>
  "sanitize_hiscores_stats c text =
     (let lines = str_split CHR 0x0A (strip text);
          logged = (if length lines \<noteq>
                      length (HISCORES_RESPONSE_SKILLS c) + length (HISCORES_RESPONSE_ACTIVITIES c)
                 then [Unexpected_number_of_lines] else []);
          skill_lines = take (length (HISCORES_RESPONSE_SKILLS c)) lines
      in case zip_map (parse_skill_line c) (HISCORES_RESPONSE_SKILLS c) skill_lines of
           Inl (InvalidSchemaError m) \<Rightarrow>
             (logged, Inl (ValueError_from Skill_line_malformatted (InvalidSchemaError m)))
         | Inl e \<Rightarrow> (logged, Inl e)
         | Inr skill_pairs \<Rightarrow>
             (let skill_dict = dict skill_pairs;
                  activity_lines = drop (length (HISCORES_RESPONSE_SKILLS c)) lines
              in case zip_map (parse_activity_line c) (HISCORES_RESPONSE_ACTIVITIES c)
                        activity_lines of
                   Inl (InvalidSchemaError m) \<Rightarrow>
                     (logged, Inl (ValueError_from Activity_line_malformatted (InvalidSchemaError m)))
                 | Inl e \<Rightarrow> (logged, Inl e)
                 | Inr activity_pairs \<Rightarrow>
                     (logged, Inr \<lparr> skills = skill_dict, activities = dict activity_pairs \<rparr>)))"

section \<open>Fetching\<close>

record response =
  "text" :: string
  status_code :: int
  reason :: string
  request_url :: string
  elapsed :: int

datatype get_result =
    Response response
  | ReadTimeout
  | Other_exception string

definition request_hiscores ::
  "(string \<Rightarrow> string \<Rightarrow> real \<Rightarrow> get_result) \<Rightarrow> string \<Rightarrow> int \<Rightarrow> real
     \<Rightarrow> warning list \<times> (exn + response)" where
  \<comment> \<open>\<open>get url player timeout\<close> stands for the call
      \<^verbatim>\<open>requests.get(url, params={"player": player}, timeout=timeout)\<close>;
      \<open>elapsed\<close> is the \<^verbatim>\<open>timedelta\<close> in microseconds.\<close>
  "request_hiscores get player warn_secs timeout =
     (case get (get_hiscores_api player) player timeout of
        ReadTimeout \<Rightarrow> ([], Inl (HiscoresDownError (Timed_out timeout)))
      | Other_exception e \<Rightarrow> ([], Inl (RequestException e))
      | Response response \<Rightarrow>
          (let logged = (if elapsed response > warn_secs * 1000000
                      then [Slow_response ((elapsed response div 1000000) mod 86400)]
                      else [])
           in if str_in ''<!doctype html>'' (text response)
              then (logged, Inl (HiscoresDownError (Returned_html (text response))))
              else if status_code response \<noteq> 200
              then (logged, Inl (ValueError (Received_status_code (status_code response)
                                            (reason response) (request_url response))))
              else (logged, Inr response)))"

section \<open>Adding the player and the time\<close>

definition urlparse_query :: "string \<Rightarrow> string" where
  \<comment> \<open>\<^verbatim>\<open>urlparse(url).query\<close>: the fragment is cut at the first \<^verbatim>\<open>#\<close>, the query is
      what follows the first \<^verbatim>\<open>?\<close> of the rest (a scheme and a host hold neither).\<close>
  "urlparse_query u =
     (let no_fragment = takeWhile (\<lambda>c. c \<noteq> CHR ''#'') u
      in drop 1 (dropWhile (\<lambda>c. c \<noteq> CHR ''?'') no_fragment))"

record parsed_stats = stats +
  player :: string
  timestamp :: string

definition process_hiscores_response ::
  "constants \<Rightarrow> string \<Rightarrow> response \<Rightarrow> warning list \<times> (exn + parsed_stats)" where
  \<comment> \<open>\<open>now\<close> is the value of \<^verbatim>\<open>datetime.now().strftime("%Y-%m-%d %H:%M:%S")\<close>.\<close>
  "process_hiscores_response c now response =
     (case sanitize_hiscores_stats c (text response) of
        (logged, Inl e) \<Rightarrow> (logged, Inl e)
      | (logged, Inr result) \<Rightarrow>
          (let query = str_split CHR ''='' (urlparse_query (request_url response))
           in if length query \<noteq> 2 \<or> query ! 0 \<noteq> ''player''
              then (logged, Inl (ValueError (Invalid_query (join ''='' query))))
              else (logged, Inr \<lparr> skills = skills result, activities = activities result,
                               player = replace_char CHR ''+'' CHR '' '' (query ! 1),
                               timestamp = now \<rparr>)))"

section \<open>The notions the properties are stated with\<close>

text \<open>
  The lines of a response body as \<^verbatim>\<open>sanitize_hiscores_stats\<close> sees them, the fields
  of a line, a line that is a comma-separated list of integers of the length of a
  schema, and the integers of such a line.
\<close>

definition lines_of :: "string \<Rightarrow> string list" where
  "lines_of body = str_split CHR 0x0A (strip body)"

definition fields_of :: "string \<Rightarrow> string list" where
  "fields_of line = str_split CHR '','' line"

definition all_integers :: "string \<Rightarrow> bool" where
  "all_integers line = list_all (\<lambda>f. py_int f \<noteq> None) (fields_of line)"

definition line_ok :: "string list \<Rightarrow> string \<Rightarrow> bool" where
  "line_ok schema line = (length (fields_of line) = length schema \<and> all_integers line)"

definition line_values :: "string \<Rightarrow> int list" where
  "line_values line = map (\<lambda>f. the (py_int f)) (fields_of line)"

text \<open>
  An identifier contains ``iron'' whatever the case of its letters: four adjacent
  characters are an i, an r, an o and an n, each small or capital.
\<close>

definition iron_letters :: "char \<Rightarrow> char \<Rightarrow> char \<Rightarrow> char \<Rightarrow> bool" where
  "iron_letters a b c d =
     ((a = CHR ''i'' \<or> a = CHR ''I'') \<and> (b = CHR ''r'' \<or> b = CHR ''R'') \<and>
      (c = CHR ''o'' \<or> c = CHR ''O'') \<and> (d = CHR ''n'' \<or> d = CHR ''N''))"

fun contains_iron :: "string \<Rightarrow> bool" where
  "contains_iron (a # b # c # d # s) = (iron_letters a b c d \<or> contains_iron (b # c # d # s))"
| "contains_iron s = False"

text \<open>Three responses of the service, to evaluate the fetcher on.\<close>

definition html_response :: response where
  "html_response =
     \<lparr> text = ''<html><!doctype html><title>Maintenance</title></html>'', status_code = 503,
       reason = ''Service Unavailable'',
       request_url = ''https://secure.runescape.com/m=hiscore_oldschool/index_lite.ws?player=Zezima'',
       elapsed = 250000 \<rparr>"

definition not_found_response :: response where
  "not_found_response =
     \<lparr> text = ''404 - Page not found'', status_code = 404, reason = ''Not Found'',
       request_url = ''https://secure.runescape.com/m=hiscore_oldschool/index_lite.ws?player=Zezima'',
       elapsed = 250000 \<rparr>"

definition slow_response :: response where
  "slow_response =
     \<lparr> text = ''1,2,3'', status_code = 200, reason = ''OK'',
       request_url = ''https://secure.runescape.com/m=hiscore_oldschool/index_lite.ws?player=Zezima'',
       elapsed = 12500000 \<rparr>"

text \<open>Response bodies for the catalogs of \<open>constants_example\<close>.\<close>

definition payload_example :: string where
  "payload_example = join [CHR 0x0A] [''1,2,3'', ''4,5,6'', ''-1,-1'', ''7,8'']"

definition payload_surplus :: string where
  "payload_surplus = join [CHR 0x0A] [''1,2,3'', ''4,5,6'', ''-1,-1'', ''7,8'', ''x,y,z'', ''9'']"

definition payload_bad_literal :: string where
  "payload_bad_literal = join [CHR 0x0A] [''a,b,c'', ''4,5'']"

definition payload_short_skill :: string where
  "payload_short_skill = join [CHR 0x0A] [''1,2,3'', ''4,5'', ''-1,-1'', ''7,8'']"

definition payload_short_activity :: string where
  "payload_short_activity = join [CHR 0x0A] [''1,2,3'', ''4,5,6'', ''-1,-1'', ''7'']"

definition payload_short_letters :: string where
  "payload_short_letters = join [CHR 0x0A] [''a,b'', ''4,5'']"

definition payload_bad_activity_literal :: string where
  "payload_bad_activity_literal = join [CHR 0x0A] [''1,2,3'', ''4,5,6'', ''x,y'', ''7'']"

text \<open>Responses that differ in the query of the request URL, to evaluate the enricher on.\<close>

definition zezima_response :: response where
  "zezima_response =
     \<lparr> text = payload_example, status_code = 200, reason = ''OK'',
       request_url = ''https://secure.runescape.com/m=hiscore_oldschool/index_lite.ws?player=Zezima'',
       elapsed = 250000 \<rparr>"

definition player_one_response :: response where
  "player_one_response =
     \<lparr> text = payload_example, status_code = 200, reason = ''OK'',
       request_url = ''https://secure.runescape.com/m=hiscore_oldschool/index_lite.ws?player=Player+One'',
       elapsed = 250000 \<rparr>"

definition two_parameters_response :: response where
  "two_parameters_response =
     \<lparr> text = payload_example, status_code = 200, reason = ''OK'',
       request_url = ''https://secure.runescape.com/m=hiscore_oldschool/index_lite.ws?player=Zezima&mode=iron'',
       elapsed = 250000 \<rparr>"

definition no_query_response :: response where
  "no_query_response =
     \<lparr> text = payload_example, status_code = 200, reason = ''OK'',
       request_url = ''https://secure.runescape.com/m=hiscore_oldschool/index_lite.ws'',
       elapsed = 250000 \<rparr>"

section \<open>Strings\<close>

lemma str_split_not_Nil: "str_split sep s \<noteq> []"
  by (induction s) (auto split: list.splits)

lemma length_str_split: "length (str_split sep s) = Suc (length (filter (\<lambda>c. c = sep) s))"
  by (induction s) (auto split: list.splits simp: str_split_not_Nil)

lemma startswith_iff: "startswith p s \<longleftrightarrow> (\<exists>suf. s = p @ suf)"
  by (induction p s rule: startswith.induct) auto

lemma str_in_iff: "str_in sub s \<longleftrightarrow> (\<exists>pre suf. s = pre @ sub @ suf)"
proof (induction s)
  case Nil
  show ?case by auto
next
  case (Cons c cs)
  show ?case
  proof
    assume "str_in sub (c # cs)"
    then consider "startswith sub (c # cs)" | "str_in sub cs" by auto
    then show "\<exists>pre suf. c # cs = pre @ sub @ suf"
    proof cases
      case 1
      then obtain suf where "c # cs = sub @ suf" by (auto simp: startswith_iff)
      then have "c # cs = [] @ sub @ suf" by simp
      then show ?thesis by blast
    next
      case 2
      then obtain pre suf where "cs = pre @ sub @ suf" using Cons.IH by blast
      then have "c # cs = (c # pre) @ sub @ suf" by simp
      then show ?thesis by blast
    qed
  next
    assume "\<exists>pre suf. c # cs = pre @ sub @ suf"
    then obtain pre suf where eq: "c # cs = pre @ sub @ suf" by blast
    show "str_in sub (c # cs)"
    proof (cases pre)
      case Nil
      then have "startswith sub (c # cs)" using eq by (auto simp: startswith_iff)
      then show ?thesis by simp
    next
      case (Cons p pre')
      then have "cs = pre' @ sub @ suf" using eq by simp
      then have "str_in sub cs" using Cons.IH by blast
      then show ?thesis by simp
    qed
  qed
qed

section \<open>Dictionaries\<close>

lemma keys_dict_set:
  "keys (dict_set k v d) = (if k \<in> set (keys d) then keys d else keys d @ [k])"
  unfolding keys_def by (induction d) (auto simp: rev_image_eqI)

lemma dict_set_fresh: "k \<notin> set (keys d) \<Longrightarrow> dict_set k v d = d @ [(k, v)]"
  unfolding keys_def by (induction d) (auto simp: rev_image_eqI)

lemma foldl_dict_set_keys:
  "set (keys (foldl (\<lambda>d (k, v). dict_set k v d) d0 ps)) = set (keys d0) \<union> fst ` set ps"
  by (induction ps arbitrary: d0) (auto simp: keys_dict_set split: prod.splits)

lemma foldl_dict_set_distinct:
  "distinct (keys d0) \<Longrightarrow> distinct (keys (foldl (\<lambda>d (k, v). dict_set k v d) d0 ps))"
  by (induction ps arbitrary: d0) (auto simp: keys_dict_set split: prod.splits)

lemma foldl_dict_set_fresh:
  "distinct (keys d0 @ map fst ps) \<Longrightarrow> foldl (\<lambda>d (k, v). dict_set k v d) d0 ps = d0 @ ps"
proof (induction ps arbitrary: d0)
  case Nil
  show ?case by simp
next
  case (Cons p ps)
  obtain k v where p: "p = (k, v)" by (cases p)
  from Cons.prems p have fresh: "k \<notin> set (keys d0)" by auto
  from Cons.prems p have "distinct (keys (d0 @ [(k, v)]) @ map fst ps)" by (auto simp: keys_def)
  then have "foldl (\<lambda>d (k, v). dict_set k v d) (d0 @ [(k, v)]) ps = (d0 @ [(k, v)]) @ ps"
    by (rule Cons.IH)
  with fresh p show ?case by (simp add: dict_set_fresh)
qed

lemma set_keys_dict: "set (keys (dict ps)) = fst ` set ps"
  using foldl_dict_set_keys [of "[]" ps] by (simp add: dict_def keys_def)

lemma distinct_keys_dict: "distinct (keys (dict ps))"
  using foldl_dict_set_distinct [of "[]" ps] by (simp add: dict_def keys_def)

lemma dict_distinct: "distinct (map fst ps) \<Longrightarrow> dict ps = ps"
  using foldl_dict_set_fresh [of "[]" ps] by (simp add: dict_def keys_def)

lemma dict_zip: "distinct ks \<Longrightarrow> dict (zip ks vs) = zip ks vs"
  by (rule dict_distinct) (simp add: map_fst_zip_take)

section \<open>Lazy zipping\<close>

lemma zip_map_keys: "zip_map f xs ys = Inr ps \<Longrightarrow> map fst ps = take (length ys) xs"
  by (induction f xs ys arbitrary: ps rule: zip_map.induct) (auto split: sum.splits)

lemma zip_map_take: "zip_map f xs ys = zip_map f xs (take (length xs) ys)"
  by (induction f xs ys rule: zip_map.induct) (auto split: sum.splits)

lemma zip_map_ok:
  "(\<And>y. y \<in> set (take (length xs) ys) \<Longrightarrow> f y = Inr (g y)) \<Longrightarrow>
   zip_map f xs ys = Inr (zip xs (map g ys))"
  by (induction f xs ys rule: zip_map.induct) (auto split: sum.splits)

lemma zip_map_first_error:
  "i < length xs \<Longrightarrow> i < length ys \<Longrightarrow> f (ys ! i) = Inl e \<Longrightarrow>
   (\<And>j. j < i \<Longrightarrow> \<exists>v. f (ys ! j) = Inr v) \<Longrightarrow> zip_map f xs ys = Inl e"
proof (induction f xs ys arbitrary: i rule: zip_map.induct)
  case (3 f x xs y ys)
  show ?case
  proof (cases i)
    case 0
    with "3.prems" show ?thesis by simp
  next
    case (Suc i')
    from "3.prems"(4) [of 0] Suc obtain v where v: "f y = Inr v" by auto
    have "zip_map f xs ys = Inl e"
    proof (rule "3.IH" [OF v, of i'])
      show "i' < length xs" using "3.prems" Suc by simp
      show "i' < length ys" using "3.prems" Suc by simp
      show "f (ys ! i') = Inl e" using "3.prems" Suc by simp
      show "\<exists>v. f (ys ! j) = Inr v" if "j < i'" for j
        using "3.prems"(4) [of "Suc j"] that Suc by simp
    qed
    with v show ?thesis by simp
  qed
qed simp_all

lemma zip_map_Inr_all:
  "zip_map f xs ys = Inr ps \<Longrightarrow> y \<in> set (take (length xs) ys) \<Longrightarrow> \<exists>v. f y = Inr v"
  by (induction f xs ys arbitrary: ps rule: zip_map.induct) (auto split: sum.splits)

lemma zip_map_Inl_some:
  "zip_map f xs ys = Inl e \<Longrightarrow> \<exists>y \<in> set (take (length xs) ys). f y = Inl e"
  by (induction f xs ys rule: zip_map.induct) (auto split: sum.splits)

section \<open>One line\<close>

lemma int_of_str_ok: "py_int f \<noteq> None \<Longrightarrow> int_of_str f = Inr (the (py_int f))"
  by (auto simp: int_of_str_def)

lemma int_of_str_Inl: "int_of_str f = Inl e \<Longrightarrow> e = ValueError (Invalid_literal_for_int f) \<and> py_int f = None"
  by (auto simp: int_of_str_def split: option.splits)

lemma parse_line_ok:
  assumes "line_ok schema line"
  shows "parse_hiscores_response_line line schema = Inr (dict (zip schema (line_values line)))"
proof -
  have len: "length schema = length (fields_of line)"
    using assms by (simp add: line_ok_def)
  have "zip_map int_of_str schema (fields_of line)
          = Inr (zip schema (map (\<lambda>f. the (py_int f)) (fields_of line)))"
  proof (rule zip_map_ok)
    fix y assume "y \<in> set (take (length schema) (fields_of line))"
    then have "y \<in> set (fields_of line)" by (rule in_set_takeD)
    then have "py_int y \<noteq> None" using assms by (simp add: line_ok_def all_integers_def list_all_iff)
    then show "int_of_str y = Inr (the (py_int y))" by (rule int_of_str_ok)
  qed
  with len show ?thesis
    by (simp add: parse_hiscores_response_line_def fields_of_def line_values_def)
qed

lemma parse_line_count:
  "length (fields_of line) \<noteq> length schema \<Longrightarrow>
   parse_hiscores_response_line line schema
     = Inl (InvalidSchemaError (Schema_invalid_for_line schema line))"
  by (auto simp: parse_hiscores_response_line_def fields_of_def)

lemma parse_line_Inr_ok:
  assumes "parse_hiscores_response_line line schema = Inr d"
  shows "line_ok schema line"
proof -
  have len: "length schema = length (fields_of line)"
    using assms by (auto simp: parse_hiscores_response_line_def fields_of_def Let_def split: if_splits)
  then obtain ps where ps: "zip_map int_of_str schema (fields_of line) = Inr ps"
    using assms
    by (cases "zip_map int_of_str schema (fields_of line)")
       (auto simp: parse_hiscores_response_line_def fields_of_def Let_def)
  have "py_int f \<noteq> None" if "f \<in> set (fields_of line)" for f
  proof -
    from that len have "f \<in> set (take (length schema) (fields_of line))" by simp
    from zip_map_Inr_all [OF ps this] show ?thesis
      by (auto simp: int_of_str_def split: option.splits)
  qed
  with len show ?thesis by (simp add: line_ok_def all_integers_def list_all_iff)
qed

lemma parse_line_Inl_cases:
  assumes "parse_hiscores_response_line line schema = Inl e"
  shows "e = InvalidSchemaError (Schema_invalid_for_line schema line)
         \<and> length (fields_of line) \<noteq> length schema
       \<or> length (fields_of line) = length schema
         \<and> (\<exists>f \<in> set (fields_of line). py_int f = None \<and> e = ValueError (Invalid_literal_for_int f))"
proof (cases "length (fields_of line) = length schema")
  case False
  with assms show ?thesis by (simp add: parse_line_count)
next
  case True
  with assms have "zip_map int_of_str schema (fields_of line) = Inl e"
    by (cases "zip_map int_of_str schema (fields_of line)")
       (auto simp: parse_hiscores_response_line_def fields_of_def Let_def)
  from zip_map_Inl_some [OF this] obtain f
    where "f \<in> set (take (length schema) (fields_of line))" and "int_of_str f = Inl e" by blast
  then have "f \<in> set (fields_of line)" and "py_int f = None \<and> e = ValueError (Invalid_literal_for_int f)"
    using int_of_str_Inl by (auto dest: in_set_takeD)
  with True show ?thesis by blast
qed

section \<open>The whole text\<close>

lemma sanitize_snd:
  "snd (sanitize_hiscores_stats c body) =
     (case zip_map (parse_skill_line c) (HISCORES_RESPONSE_SKILLS c)
             (take (length (HISCORES_RESPONSE_SKILLS c)) (lines_of body)) of
        Inl (InvalidSchemaError m) \<Rightarrow>
          Inl (ValueError_from Skill_line_malformatted (InvalidSchemaError m))
      | Inl e \<Rightarrow> Inl e
      | Inr skill_pairs \<Rightarrow>
          (case zip_map (parse_activity_line c) (HISCORES_RESPONSE_ACTIVITIES c)
                  (drop (length (HISCORES_RESPONSE_SKILLS c)) (lines_of body)) of
             Inl (InvalidSchemaError m) \<Rightarrow>
               Inl (ValueError_from Activity_line_malformatted (InvalidSchemaError m))
           | Inl e \<Rightarrow> Inl e
           | Inr activity_pairs \<Rightarrow>
               Inr \<lparr> skills = dict skill_pairs, activities = dict activity_pairs \<rparr>))"
  by (simp add: sanitize_hiscores_stats_def lines_of_def Let_def split: sum.splits exn.splits)

lemma sanitize_fst:
  "fst (sanitize_hiscores_stats c body) =
     (if length (lines_of body)
           \<noteq> length (HISCORES_RESPONSE_SKILLS c) + length (HISCORES_RESPONSE_ACTIVITIES c)
      then [Unexpected_number_of_lines] else [])"
  by (simp add: sanitize_hiscores_stats_def lines_of_def Let_def split: sum.splits exn.splits)

lemma sanitize_Inr_D:
  assumes "snd (sanitize_hiscores_stats c body) = Inr r"
  obtains ps qs where
    "zip_map (parse_skill_line c) (HISCORES_RESPONSE_SKILLS c)
       (take (length (HISCORES_RESPONSE_SKILLS c)) (lines_of body)) = Inr ps"
    "zip_map (parse_activity_line c) (HISCORES_RESPONSE_ACTIVITIES c)
       (drop (length (HISCORES_RESPONSE_SKILLS c)) (lines_of body)) = Inr qs"
    "r = \<lparr> skills = dict ps, activities = dict qs \<rparr>"
  using assms unfolding sanitize_snd by (auto split: sum.splits exn.splits)

lemma sanitize_ok:
  assumes skill: "\<And>l. l \<in> set (take (length (HISCORES_RESPONSE_SKILLS c)) (lines_of body))
            \<Longrightarrow> line_ok (HISCORES_RESPONSE_SKILL_COLS c) l"
      and act: "\<And>l. l \<in> set (take (length (HISCORES_RESPONSE_ACTIVITIES c))
                           (drop (length (HISCORES_RESPONSE_SKILLS c)) (lines_of body)))
            \<Longrightarrow> line_ok (HISCORE_RESPONSE_ACTIVITY_COLS c) l"
  shows "snd (sanitize_hiscores_stats c body) =
           Inr \<lparr> skills = dict (zip (HISCORES_RESPONSE_SKILLS c)
                    (map (\<lambda>l. dict (zip (HISCORES_RESPONSE_SKILL_COLS c) (line_values l)))
                       (take (length (HISCORES_RESPONSE_SKILLS c)) (lines_of body)))),
                 activities = dict (zip (HISCORES_RESPONSE_ACTIVITIES c)
                    (map (\<lambda>l. dict (zip (HISCORE_RESPONSE_ACTIVITY_COLS c) (line_values l)))
                       (drop (length (HISCORES_RESPONSE_SKILLS c)) (lines_of body)))) \<rparr>"
proof -
  let ?N = "length (HISCORES_RESPONSE_SKILLS c)"
  have s: "zip_map (parse_skill_line c) (HISCORES_RESPONSE_SKILLS c) (take ?N (lines_of body))
         = Inr (zip (HISCORES_RESPONSE_SKILLS c)
                  (map (\<lambda>l. dict (zip (HISCORES_RESPONSE_SKILL_COLS c) (line_values l)))
                     (take ?N (lines_of body))))"
  proof (rule zip_map_ok)
    fix y assume "y \<in> set (take ?N (take ?N (lines_of body)))"
    then have "line_ok (HISCORES_RESPONSE_SKILL_COLS c) y" using skill by simp
    then show "parse_skill_line c y
                 = Inr (dict (zip (HISCORES_RESPONSE_SKILL_COLS c) (line_values y)))"
      unfolding parse_skill_line_def by (rule parse_line_ok)
  qed
  have a: "zip_map (parse_activity_line c) (HISCORES_RESPONSE_ACTIVITIES c)
             (drop ?N (lines_of body))
         = Inr (zip (HISCORES_RESPONSE_ACTIVITIES c)
                  (map (\<lambda>l. dict (zip (HISCORE_RESPONSE_ACTIVITY_COLS c) (line_values l)))
                     (drop ?N (lines_of body))))"
  proof (rule zip_map_ok)
    fix y assume "y \<in> set (take (length (HISCORES_RESPONSE_ACTIVITIES c)) (drop ?N (lines_of body)))"
    then have "line_ok (HISCORE_RESPONSE_ACTIVITY_COLS c) y" by (rule act)
    then show "parse_activity_line c y
                 = Inr (dict (zip (HISCORE_RESPONSE_ACTIVITY_COLS c) (line_values y)))"
      unfolding parse_activity_line_def by (rule parse_line_ok)
  qed
  show ?thesis unfolding sanitize_snd by (simp add: s a)
qed

lemma sanitize_Inr_lines_ok:
  assumes "snd (sanitize_hiscores_stats c body) = Inr r"
  shows "(\<forall>l \<in> set (take (length (HISCORES_RESPONSE_SKILLS c)) (lines_of body)).
            line_ok (HISCORES_RESPONSE_SKILL_COLS c) l)
       \<and> (\<forall>l \<in> set (take (length (HISCORES_RESPONSE_ACTIVITIES c))
                        (drop (length (HISCORES_RESPONSE_SKILLS c)) (lines_of body))).
            line_ok (HISCORE_RESPONSE_ACTIVITY_COLS c) l)"
proof -
  from assms obtain ps qs where
    ps: "zip_map (parse_skill_line c) (HISCORES_RESPONSE_SKILLS c)
       (take (length (HISCORES_RESPONSE_SKILLS c)) (lines_of body)) = Inr ps" and
    qs: "zip_map (parse_activity_line c) (HISCORES_RESPONSE_ACTIVITIES c)
       (drop (length (HISCORES_RESPONSE_SKILLS c)) (lines_of body)) = Inr qs"
    by (rule sanitize_Inr_D)
  have "line_ok (HISCORES_RESPONSE_SKILL_COLS c) l"
    if "l \<in> set (take (length (HISCORES_RESPONSE_SKILLS c)) (lines_of body))" for l
  proof -
    from that have "l \<in> set (take (length (HISCORES_RESPONSE_SKILLS c))
                        (take (length (HISCORES_RESPONSE_SKILLS c)) (lines_of body)))" by simp
    from zip_map_Inr_all [OF ps this] show ?thesis
      by (auto simp: parse_skill_line_def intro: parse_line_Inr_ok)
  qed
  moreover have "line_ok (HISCORE_RESPONSE_ACTIVITY_COLS c) l"
    if "l \<in> set (take (length (HISCORES_RESPONSE_ACTIVITIES c))
                        (drop (length (HISCORES_RESPONSE_SKILLS c)) (lines_of body)))" for l
    using zip_map_Inr_all [OF qs that]
    by (auto simp: parse_activity_line_def intro: parse_line_Inr_ok)
  ultimately show ?thesis by blast
qed

lemma sanitize_skill_count_error:
  assumes i: "i < length (HISCORES_RESPONSE_SKILLS c)" "i < length (lines_of body)"
      and bad: "length (fields_of (lines_of body ! i)) \<noteq> length (HISCORES_RESPONSE_SKILL_COLS c)"
      and before: "\<And>j. j < i \<Longrightarrow> line_ok (HISCORES_RESPONSE_SKILL_COLS c) (lines_of body ! j)"
  shows "snd (sanitize_hiscores_stats c body) =
           Inl (ValueError_from Skill_line_malformatted
                  (InvalidSchemaError
                     (Schema_invalid_for_line (HISCORES_RESPONSE_SKILL_COLS c) (lines_of body ! i))))"
proof -
  let ?N = "length (HISCORES_RESPONSE_SKILLS c)"
  let ?ys = "take ?N (lines_of body)"
  have "zip_map (parse_skill_line c) (HISCORES_RESPONSE_SKILLS c) ?ys
          = Inl (InvalidSchemaError
                   (Schema_invalid_for_line (HISCORES_RESPONSE_SKILL_COLS c) (lines_of body ! i)))"
  proof (rule zip_map_first_error [where i = i])
    show "i < ?N" by (rule i(1))
    show "i < length ?ys" using i by simp
    show "parse_skill_line c (?ys ! i)
            = Inl (InvalidSchemaError
                   (Schema_invalid_for_line (HISCORES_RESPONSE_SKILL_COLS c) (lines_of body ! i)))"
      using i bad by (simp add: parse_skill_line_def parse_line_count)
    show "\<exists>v. parse_skill_line c (?ys ! j) = Inr v" if "j < i" for j
      using that i before [OF that] by (simp add: parse_skill_line_def parse_line_ok)
  qed
  then show ?thesis unfolding sanitize_snd by simp
qed

lemma sanitize_activity_count_error:
  assumes skill: "\<And>l. l \<in> set (take (length (HISCORES_RESPONSE_SKILLS c)) (lines_of body))
            \<Longrightarrow> line_ok (HISCORES_RESPONSE_SKILL_COLS c) l"
      and i: "i < length (HISCORES_RESPONSE_ACTIVITIES c)"
             "length (HISCORES_RESPONSE_SKILLS c) + i < length (lines_of body)"
      and bad: "length (fields_of (lines_of body ! (length (HISCORES_RESPONSE_SKILLS c) + i)))
                  \<noteq> length (HISCORE_RESPONSE_ACTIVITY_COLS c)"
      and before: "\<And>j. j < i \<Longrightarrow> line_ok (HISCORE_RESPONSE_ACTIVITY_COLS c)
                      (lines_of body ! (length (HISCORES_RESPONSE_SKILLS c) + j))"
  shows "snd (sanitize_hiscores_stats c body) =
           Inl (ValueError_from Activity_line_malformatted
                  (InvalidSchemaError
                     (Schema_invalid_for_line (HISCORE_RESPONSE_ACTIVITY_COLS c)
                        (lines_of body ! (length (HISCORES_RESPONSE_SKILLS c) + i)))))"
proof -
  let ?N = "length (HISCORES_RESPONSE_SKILLS c)"
  let ?ys = "drop ?N (lines_of body)"
  have s: "zip_map (parse_skill_line c) (HISCORES_RESPONSE_SKILLS c) (take ?N (lines_of body))
         = Inr (zip (HISCORES_RESPONSE_SKILLS c)
                  (map (\<lambda>l. dict (zip (HISCORES_RESPONSE_SKILL_COLS c) (line_values l)))
                     (take ?N (lines_of body))))"
  proof (rule zip_map_ok)
    fix y assume "y \<in> set (take ?N (take ?N (lines_of body)))"
    then have "line_ok (HISCORES_RESPONSE_SKILL_COLS c) y" using skill by simp
    then show "parse_skill_line c y
                 = Inr (dict (zip (HISCORES_RESPONSE_SKILL_COLS c) (line_values y)))"
      unfolding parse_skill_line_def by (rule parse_line_ok)
  qed
  have a: "zip_map (parse_activity_line c) (HISCORES_RESPONSE_ACTIVITIES c) ?ys
          = Inl (InvalidSchemaError
                   (Schema_invalid_for_line (HISCORE_RESPONSE_ACTIVITY_COLS c)
                      (lines_of body ! (?N + i))))"
  proof (rule zip_map_first_error [where i = i])
    show "i < length (HISCORES_RESPONSE_ACTIVITIES c)" by (rule i(1))
    show "i < length ?ys" using i by simp
    show "parse_activity_line c (?ys ! i)
            = Inl (InvalidSchemaError
                   (Schema_invalid_for_line (HISCORE_RESPONSE_ACTIVITY_COLS c)
                      (lines_of body ! (?N + i))))"
      using i bad by (simp add: parse_activity_line_def parse_line_count)
    show "\<exists>v. parse_activity_line c (?ys ! j) = Inr v" if "j < i" for j
      using that i before [OF that] by (simp add: parse_activity_line_def parse_line_ok)
  qed
  show ?thesis unfolding sanitize_snd by (simp add: s a)
qed

section \<open>The endpoint selector returns the ironman endpoint exactly for ``iron''\<close>

lemma of_char_lower_char:
  "(of_char (lower_char c) :: nat) = (if isupper c then of_char c + 32 else of_char c)"
  by (auto simp: lower_char_def isupper_def Let_def)

lemma char_eq_iff_of_char: "c = d \<longleftrightarrow> (of_char c :: nat) = of_char d"
  by simp

lemma lower_char_i: "lower_char c = CHR ''i'' \<longleftrightarrow> c = CHR ''i'' \<or> c = CHR ''I''"
  unfolding char_eq_iff_of_char [of _ "CHR ''i''"] char_eq_iff_of_char [of _ "CHR ''I''"]
    of_char_lower_char
  by (auto simp: isupper_def Let_def)

lemma lower_char_r: "lower_char c = CHR ''r'' \<longleftrightarrow> c = CHR ''r'' \<or> c = CHR ''R''"
  unfolding char_eq_iff_of_char [of _ "CHR ''r''"] char_eq_iff_of_char [of _ "CHR ''R''"]
    of_char_lower_char
  by (auto simp: isupper_def Let_def)

lemma lower_char_o: "lower_char c = CHR ''o'' \<longleftrightarrow> c = CHR ''o'' \<or> c = CHR ''O''"
  unfolding char_eq_iff_of_char [of _ "CHR ''o''"] char_eq_iff_of_char [of _ "CHR ''O''"]
    of_char_lower_char
  by (auto simp: isupper_def Let_def)

lemma lower_char_n: "lower_char c = CHR ''n'' \<longleftrightarrow> c = CHR ''n'' \<or> c = CHR ''N''"
  unfolding char_eq_iff_of_char [of _ "CHR ''n''"] char_eq_iff_of_char [of _ "CHR ''N''"]
    of_char_lower_char
  by (auto simp: isupper_def Let_def)

lemma map_eq_iron:
  "map lower_char s = pre @ ''iron'' @ suf \<longleftrightarrow>
     (\<exists>p a b c d q. s = p @ [a, b, c, d] @ q \<and> map lower_char p = pre \<and> map lower_char q = suf
        \<and> iron_letters a b c d)"
  (is "?L \<longleftrightarrow> ?R")
proof
  assume ?L
  then obtain p r where s: "s = p @ r" and p: "map lower_char p = pre"
     and r: "map lower_char r = ''iron'' @ suf"
    by (auto simp: map_eq_append_conv)
  from r obtain a b c d q where "r = [a, b, c, d] @ q" "map lower_char q = suf"
     "lower_char a = CHR ''i''" "lower_char b = CHR ''r''" "lower_char c = CHR ''o''"
     "lower_char d = CHR ''n''"
    by (auto simp: map_eq_Cons_conv)
  with s p show ?R
    unfolding iron_letters_def lower_char_i [symmetric] lower_char_r [symmetric]
      lower_char_o [symmetric] lower_char_n [symmetric] by blast
next
  assume ?R
  then show ?L
    unfolding iron_letters_def lower_char_i [symmetric] lower_char_r [symmetric]
      lower_char_o [symmetric] lower_char_n [symmetric] by auto
qed

lemma contains_iron_iff:
  "contains_iron s \<longleftrightarrow> (\<exists>p a b c d q. s = p @ [a, b, c, d] @ q \<and> iron_letters a b c d)"
proof (induction s rule: contains_iron.induct)
  case (1 a b c d s)
  show ?case
  proof
    assume "contains_iron (a # b # c # d # s)"
    then consider "iron_letters a b c d" | "contains_iron (b # c # d # s)" by auto
    then show "\<exists>p a' b' c' d' q. a # b # c # d # s = p @ [a', b', c', d'] @ q \<and> iron_letters a' b' c' d'"
    proof cases
      case 1
      have "a # b # c # d # s = [] @ [a, b, c, d] @ s" by simp
      with 1 show ?thesis by blast
    next
      case 2
      then obtain p a' b' c' d' q where "b # c # d # s = p @ [a', b', c', d'] @ q" "iron_letters a' b' c' d'"
        using "1.IH" by blast
      then have "a # b # c # d # s = (a # p) @ [a', b', c', d'] @ q" by simp
      with \<open>iron_letters a' b' c' d'\<close> show ?thesis by blast
    qed
  next
    assume "\<exists>p a' b' c' d' q. a # b # c # d # s = p @ [a', b', c', d'] @ q \<and> iron_letters a' b' c' d'"
    then obtain p a' b' c' d' q where eq: "a # b # c # d # s = p @ [a', b', c', d'] @ q"
      and il: "iron_letters a' b' c' d'" by blast
    show "contains_iron (a # b # c # d # s)"
    proof (cases p)
      case Nil
      with eq il show ?thesis by simp
    next
      case (Cons x p')
      with eq have "b # c # d # s = p' @ [a', b', c', d'] @ q" by simp
      with il have "contains_iron (b # c # d # s)" using "1.IH" by blast
      then show ?thesis by simp
    qed
  qed
qed (auto simp: append_eq_Cons_conv)

lemma str_in_iron_lower: "str_in ''iron'' (lower s) \<longleftrightarrow> contains_iron s"
proof -
  have "str_in ''iron'' (lower s) \<longleftrightarrow> (\<exists>pre suf. map lower_char s = pre @ ''iron'' @ suf)"
    by (simp add: str_in_iff lower_def)
  also have "\<dots> \<longleftrightarrow> (\<exists>p a b c d q. s = p @ [a, b, c, d] @ q \<and> iron_letters a b c d)"
    unfolding map_eq_iron by blast
  finally show ?thesis by (simp add: contains_iron_iff)
qed

lemma api_distinct: "HISCORES_IRONMAN_API \<noteq> HISCORES_API"
  by (simp add: HISCORES_IRONMAN_API_def HISCORES_API_def)

text \<open>
  Claim C4. For every player identifier, \<^verbatim>\<open>get_hiscores_api\<close> returns the ironman
  endpoint if and only if the lowercased identifier contains \<^verbatim>\<open>iron\<close>, and the standard
  endpoint if and only if it does not; the lowercased identifier contains \<^verbatim>\<open>iron\<close>
  exactly when the identifier contains the four letters in some mix of cases. The function
  is total and has no failure value.
\<close>

theorem get_hiscores_api_iron:
  "(get_hiscores_api ident = HISCORES_IRONMAN_API
      \<longleftrightarrow> (\<exists>pre suf. lower ident = pre @ ''iron'' @ suf))
   \<and> (get_hiscores_api ident = HISCORES_API
      \<longleftrightarrow> \<not> (\<exists>pre suf. lower ident = pre @ ''iron'' @ suf))
   \<and> ((\<exists>pre suf. lower ident = pre @ ''iron'' @ suf) \<longleftrightarrow> contains_iron ident)"
  using api_distinct str_in_iron_lower [of ident]
  by (auto simp: get_hiscores_api_def str_in_iff)

theorem get_hiscores_api_iron_witness:
  "get_hiscores_api ''Big IrOn Bob'' = HISCORES_IRONMAN_API
   \<and> get_hiscores_api ''Zezima'' = HISCORES_API"
proof -
  have a: "contains_iron ''Big IrOn Bob''" by (simp add: iron_letters_def)
  have b: "\<not> contains_iron ''Zezima''" by (simp add: iron_letters_def)
  from a b show ?thesis
    using get_hiscores_api_iron [of "''Big IrOn Bob''"] get_hiscores_api_iron [of "''Zezima''"]
    by blast
qed

section \<open>The fetcher\<close>

lemma request_hiscores_Response:
  "get (get_hiscores_api ident) ident timeout = Response r \<Longrightarrow>
   request_hiscores get ident warn_secs timeout =
     (if elapsed r > warn_secs * 1000000 then [Slow_response ((elapsed r div 1000000) mod 86400)] else [],
      if str_in ''<!doctype html>'' (text r) then Inl (HiscoresDownError (Returned_html (text r)))
      else if status_code r \<noteq> 200
      then Inl (ValueError (Received_status_code (status_code r) (reason r) (request_url r)))
      else Inr r)"
  by (simp add: request_hiscores_def Let_def)

text \<open>
  Claim C3. When the body of the response contains \<^verbatim>\<open><!doctype html>\<close>,
  \<^verbatim>\<open>request_hiscores\<close> raises \<^verbatim>\<open>HiscoresDownError\<close>, whatever the status code is:
  the check of the marker comes before the check of the status.
\<close>

theorem request_hiscores_html:
  assumes "get (get_hiscores_api ident) ident timeout = Response r"
      and "text r = pre @ ''<!doctype html>'' @ suf"
  shows "snd (request_hiscores get ident warn_secs timeout)
           = Inl (HiscoresDownError (Returned_html (text r)))"
proof -
  from assms(2) have "str_in ''<!doctype html>'' (text r)"
    unfolding str_in_iff by blast
  with assms(1) show ?thesis by (simp add: request_hiscores_Response)
qed

theorem request_hiscores_html_witness:
  "status_code html_response \<noteq> 200
   \<and> snd (request_hiscores (\<lambda>u p t. Response html_response) ''Zezima'' 10 60)
       = Inl (HiscoresDownError (Returned_html (text html_response)))"
proof -
  have "text html_response = ''<html>'' @ ''<!doctype html>'' @ ''<title>Maintenance</title></html>''"
    by (simp add: html_response_def)
  from request_hiscores_html [where get = "\<lambda>u p t. Response html_response" and ident = "''Zezima''"
         and timeout = 60 and warn_secs = 10 and r = html_response, OF _ this]
  show ?thesis by (simp add: html_response_def)
qed

text \<open>
  Claim C8. When the body holds no HTML marker, a status code other than 200 makes
  \<^verbatim>\<open>request_hiscores\<close> raise a \<^verbatim>\<open>ValueError\<close> that carries the status code, the
  reason and the requested URL, and status 200 makes it return the response as it is.
\<close>

theorem request_hiscores_status:
  assumes "get (get_hiscores_api ident) ident timeout = Response r"
      and "\<not> (\<exists>pre suf. text r = pre @ ''<!doctype html>'' @ suf)"
  shows "(status_code r \<noteq> 200 \<longrightarrow>
            snd (request_hiscores get ident warn_secs timeout)
              = Inl (ValueError (Received_status_code (status_code r) (reason r) (request_url r))))
       \<and> (status_code r = 200 \<longrightarrow>
            snd (request_hiscores get ident warn_secs timeout) = Inr r)"
proof -
  from assms(2) have "\<not> str_in ''<!doctype html>'' (text r)"
    unfolding str_in_iff by blast
  with assms(1) show ?thesis by (simp add: request_hiscores_Response)
qed

theorem request_hiscores_status_witness:
  "snd (request_hiscores (\<lambda>u p t. Response not_found_response) ''Zezima'' 10 60)
     = Inl (ValueError (Received_status_code 404 ''Not Found''
         ''https://secure.runescape.com/m=hiscore_oldschool/index_lite.ws?player=Zezima''))
   \<and> snd (request_hiscores (\<lambda>u p t. Response slow_response) ''Zezima'' 10 60)
     = Inr slow_response"
proof -
  have a: "\<not> (\<exists>pre suf. text not_found_response = pre @ ''<!doctype html>'' @ suf)"
    unfolding str_in_iff [symmetric] by (simp add: not_found_response_def)
  have b: "\<not> (\<exists>pre suf. text slow_response = pre @ ''<!doctype html>'' @ suf)"
    unfolding str_in_iff [symmetric] by (simp add: slow_response_def)
  have c: "status_code not_found_response \<noteq> 200" "status_code slow_response = 200"
    by (simp_all add: not_found_response_def slow_response_def)
  from request_hiscores_status [where get = "\<lambda>u p t. Response not_found_response"
         and ident = "''Zezima''" and timeout = 60 and warn_secs = 10 and r = not_found_response, OF _ a]
       request_hiscores_status [where get = "\<lambda>u p t. Response slow_response"
         and ident = "''Zezima''" and timeout = 60 and warn_secs = 10 and r = slow_response, OF _ b] c
  show ?thesis by (simp add: not_found_response_def)
qed

section \<open>Warnings\<close>

lemma lines_of_one_line: "lines_of ''1,2,3'' = [''1,2,3'']"
  by code_simp

lemma line_ok_example: "line_ok [''rank'', ''level'', ''experience''] ''1,2,3''"
  by code_simp

text \<open>
  Claim C9. The two warnings change no result. What the fetcher returns or raises does
  not depend on the warning threshold, and a good response slower than the threshold is
  returned, with the warning logged. The parser succeeds exactly when the lines that are
  present, among those the catalogs label, are well formed, whatever the number of lines
  is; a wrong number of lines only logs the warning.
\<close>

theorem warnings_are_advisory:
  "snd (request_hiscores get ident w1 timeout) = snd (request_hiscores get ident w2 timeout)
   \<and> (get (get_hiscores_api ident) ident timeout = Response r
        \<and> \<not> (\<exists>pre suf. text r = pre @ ''<!doctype html>'' @ suf)
        \<and> status_code r = 200 \<and> elapsed r > w1 * 1000000
      \<longrightarrow> request_hiscores get ident w1 timeout
            = ([Slow_response ((elapsed r div 1000000) mod 86400)], Inr r))
   \<and> ((\<exists>st. snd (sanitize_hiscores_stats c body) = Inr st)
        \<longleftrightarrow> (\<forall>l \<in> set (take (length (HISCORES_RESPONSE_SKILLS c)) (lines_of body)).
               line_ok (HISCORES_RESPONSE_SKILL_COLS c) l)
          \<and> (\<forall>l \<in> set (take (length (HISCORES_RESPONSE_ACTIVITIES c))
                           (drop (length (HISCORES_RESPONSE_SKILLS c)) (lines_of body))).
               line_ok (HISCORE_RESPONSE_ACTIVITY_COLS c) l))
   \<and> (length (lines_of body)
         \<noteq> length (HISCORES_RESPONSE_SKILLS c) + length (HISCORES_RESPONSE_ACTIVITIES c)
      \<longrightarrow> fst (sanitize_hiscores_stats c body) = [Unexpected_number_of_lines])"
proof (intro conjI)
  show "snd (request_hiscores get ident w1 timeout) = snd (request_hiscores get ident w2 timeout)"
    by (cases "get (get_hiscores_api ident) ident timeout")
       (simp_all add: request_hiscores_def Let_def)
  show "get (get_hiscores_api ident) ident timeout = Response r
        \<and> \<not> (\<exists>pre suf. text r = pre @ ''<!doctype html>'' @ suf)
        \<and> status_code r = 200 \<and> elapsed r > w1 * 1000000
      \<longrightarrow> request_hiscores get ident w1 timeout
            = ([Slow_response ((elapsed r div 1000000) mod 86400)], Inr r)"
    unfolding str_in_iff [symmetric] by (simp add: request_hiscores_Response)
  show "(\<exists>st. snd (sanitize_hiscores_stats c body) = Inr st)
        \<longleftrightarrow> (\<forall>l \<in> set (take (length (HISCORES_RESPONSE_SKILLS c)) (lines_of body)).
               line_ok (HISCORES_RESPONSE_SKILL_COLS c) l)
          \<and> (\<forall>l \<in> set (take (length (HISCORES_RESPONSE_ACTIVITIES c))
                           (drop (length (HISCORES_RESPONSE_SKILLS c)) (lines_of body))).
               line_ok (HISCORE_RESPONSE_ACTIVITY_COLS c) l)"
    using sanitize_Inr_lines_ok [of c body] sanitize_ok [of c body] by blast
  show "length (lines_of body)
         \<noteq> length (HISCORES_RESPONSE_SKILLS c) + length (HISCORES_RESPONSE_ACTIVITIES c)
      \<longrightarrow> fst (sanitize_hiscores_stats c body) = [Unexpected_number_of_lines]"
    by (simp add: sanitize_fst)
qed

theorem warnings_are_advisory_witness:
  "request_hiscores (\<lambda>u p t. Response slow_response) ''Zezima'' 10 60
     = ([Slow_response 12], Inr slow_response)
   \<and> length (lines_of ''1,2,3'')
       \<noteq> length (HISCORES_RESPONSE_SKILLS constants_example)
         + length (HISCORES_RESPONSE_ACTIVITIES constants_example)
   \<and> fst (sanitize_hiscores_stats constants_example ''1,2,3'') = [Unexpected_number_of_lines]
   \<and> (\<exists>st. snd (sanitize_hiscores_stats constants_example ''1,2,3'') = Inr st)"
proof -
  have a: "\<not> (\<exists>pre suf. text slow_response = pre @ ''<!doctype html>'' @ suf)"
    unfolding str_in_iff [symmetric] by (simp add: slow_response_def)
  have b: "status_code slow_response = 200" "elapsed slow_response > 10 * 1000000"
    "(elapsed slow_response div 1000000) mod 86400 = 12"
    by (simp_all add: slow_response_def)
  have c: "\<forall>l \<in> set (take (length (HISCORES_RESPONSE_SKILLS constants_example)) (lines_of ''1,2,3'')).
               line_ok (HISCORES_RESPONSE_SKILL_COLS constants_example) l"
    by (simp add: lines_of_one_line constants_example_def line_ok_example)
  have d: "\<forall>l \<in> set (take (length (HISCORES_RESPONSE_ACTIVITIES constants_example))
                           (drop (length (HISCORES_RESPONSE_SKILLS constants_example)) (lines_of ''1,2,3''))).
               line_ok (HISCORE_RESPONSE_ACTIVITY_COLS constants_example) l"
    by (simp add: lines_of_one_line constants_example_def)
  have e: "length (lines_of ''1,2,3'')
       \<noteq> length (HISCORES_RESPONSE_SKILLS constants_example)
         + length (HISCORES_RESPONSE_ACTIVITIES constants_example)"
    by (simp add: lines_of_one_line constants_example_def)
  from warnings_are_advisory [where get = "\<lambda>u p t. Response slow_response" and ident = "''Zezima''"
         and timeout = 60 and ?w1.0 = 10 and r = slow_response and c = constants_example
         and body = "''1,2,3''"] a b c d e
  show ?thesis by simp
qed

section \<open>The parser on whole payloads\<close>

lemma lines_of_payload_example:
  "lines_of payload_example = [''1,2,3'', ''4,5,6'', ''-1,-1'', ''7,8'']"
  by code_simp

lemma lines_of_payload_surplus:
  "lines_of payload_surplus = [''1,2,3'', ''4,5,6'', ''-1,-1'', ''7,8'', ''x,y,z'', ''9'']"
  by code_simp

lemma line_ok_examples:
  "line_ok [''rank'', ''level'', ''experience''] ''1,2,3''"
  "line_ok [''rank'', ''level'', ''experience''] ''4,5,6''"
  "line_ok [''rank'', ''score''] ''-1,-1''"
  "line_ok [''rank'', ''score''] ''7,8''"
  by code_simp+

lemma line_values_examples:
  "line_values ''1,2,3'' = [1, 2, 3]" "line_values ''4,5,6'' = [4, 5, 6]"
  "line_values ''-1,-1'' = [-1, -1]" "line_values ''7,8'' = [7, 8]"
  by code_simp+

lemma sanitize_ok_distinct:
  assumes skill: "\<And>l. l \<in> set (take (length (HISCORES_RESPONSE_SKILLS c)) (lines_of body))
            \<Longrightarrow> line_ok (HISCORES_RESPONSE_SKILL_COLS c) l"
      and act: "\<And>l. l \<in> set (take (length (HISCORES_RESPONSE_ACTIVITIES c))
                           (drop (length (HISCORES_RESPONSE_SKILLS c)) (lines_of body)))
            \<Longrightarrow> line_ok (HISCORE_RESPONSE_ACTIVITY_COLS c) l"
      and d: "distinct (HISCORES_RESPONSE_SKILLS c)" "distinct (HISCORES_RESPONSE_ACTIVITIES c)"
        "distinct (HISCORES_RESPONSE_SKILL_COLS c)" "distinct (HISCORE_RESPONSE_ACTIVITY_COLS c)"
  shows "snd (sanitize_hiscores_stats c body) =
           Inr \<lparr> skills = zip (HISCORES_RESPONSE_SKILLS c)
                    (map (\<lambda>l. zip (HISCORES_RESPONSE_SKILL_COLS c) (line_values l))
                       (take (length (HISCORES_RESPONSE_SKILLS c)) (lines_of body))),
                 activities = zip (HISCORES_RESPONSE_ACTIVITIES c)
                    (map (\<lambda>l. zip (HISCORE_RESPONSE_ACTIVITY_COLS c) (line_values l))
                       (take (length (HISCORES_RESPONSE_ACTIVITIES c))
                          (drop (length (HISCORES_RESPONSE_SKILLS c)) (lines_of body)))) \<rparr>"
proof -
  have z: "zip xs (map g ys) = zip xs (map g (take (length xs) ys))" for xs :: "string list"
    and g :: "string \<Rightarrow> (string \<times> int) list" and ys
    by (induction xs ys rule: list_induct2') auto
  have "snd (sanitize_hiscores_stats c body) =
           Inr \<lparr> skills = dict (zip (HISCORES_RESPONSE_SKILLS c)
                    (map (\<lambda>l. dict (zip (HISCORES_RESPONSE_SKILL_COLS c) (line_values l)))
                       (take (length (HISCORES_RESPONSE_SKILLS c)) (lines_of body)))),
                 activities = dict (zip (HISCORES_RESPONSE_ACTIVITIES c)
                    (map (\<lambda>l. dict (zip (HISCORE_RESPONSE_ACTIVITY_COLS c) (line_values l)))
                       (drop (length (HISCORES_RESPONSE_SKILLS c)) (lines_of body)))) \<rparr>"
    using skill act by (rule sanitize_ok)
  also have "zip (HISCORES_RESPONSE_ACTIVITIES c)
                    (map (\<lambda>l. dict (zip (HISCORE_RESPONSE_ACTIVITY_COLS c) (line_values l)))
                       (drop (length (HISCORES_RESPONSE_SKILLS c)) (lines_of body)))
      = zip (HISCORES_RESPONSE_ACTIVITIES c)
                    (map (\<lambda>l. dict (zip (HISCORE_RESPONSE_ACTIVITY_COLS c) (line_values l)))
                       (take (length (HISCORES_RESPONSE_ACTIVITIES c))
                          (drop (length (HISCORES_RESPONSE_SKILLS c)) (lines_of body))))"
    by (rule z)
  finally show ?thesis by (simp add: dict_zip d)
qed

text \<open>
  Claim C2. When the trimmed text has exactly as many lines as the two catalogs have
  labels, the first lines being comma-separated integers of the length of the skill
  schema and the others of the length of the activity schema, the parser succeeds and
  logs nothing: the keys of \<open>skills\<close> and \<open>activities\<close> are the catalog labels in order,
  and each label is mapped to the field names of the schema paired with the integers of
  its line. The catalogs and schemas hold no label twice.
\<close>

theorem sanitize_well_formed:
  assumes len: "length (lines_of body)
             = length (HISCORES_RESPONSE_SKILLS c) + length (HISCORES_RESPONSE_ACTIVITIES c)"
      and skill: "\<forall>l \<in> set (take (length (HISCORES_RESPONSE_SKILLS c)) (lines_of body)).
                    line_ok (HISCORES_RESPONSE_SKILL_COLS c) l"
      and act: "\<forall>l \<in> set (drop (length (HISCORES_RESPONSE_SKILLS c)) (lines_of body)).
                    line_ok (HISCORE_RESPONSE_ACTIVITY_COLS c) l"
      and d: "distinct (HISCORES_RESPONSE_SKILLS c)" "distinct (HISCORES_RESPONSE_ACTIVITIES c)"
        "distinct (HISCORES_RESPONSE_SKILL_COLS c)" "distinct (HISCORE_RESPONSE_ACTIVITY_COLS c)"
  shows "sanitize_hiscores_stats c body =
           ([], Inr \<lparr> skills = zip (HISCORES_RESPONSE_SKILLS c)
                    (map (\<lambda>l. zip (HISCORES_RESPONSE_SKILL_COLS c) (line_values l))
                       (take (length (HISCORES_RESPONSE_SKILLS c)) (lines_of body))),
                 activities = zip (HISCORES_RESPONSE_ACTIVITIES c)
                    (map (\<lambda>l. zip (HISCORE_RESPONSE_ACTIVITY_COLS c) (line_values l))
                       (drop (length (HISCORES_RESPONSE_SKILLS c)) (lines_of body))) \<rparr>)
       \<and> map fst (zip (HISCORES_RESPONSE_SKILLS c)
                    (map (\<lambda>l. zip (HISCORES_RESPONSE_SKILL_COLS c) (line_values l))
                       (take (length (HISCORES_RESPONSE_SKILLS c)) (lines_of body))))
           = HISCORES_RESPONSE_SKILLS c
       \<and> map fst (zip (HISCORES_RESPONSE_ACTIVITIES c)
                    (map (\<lambda>l. zip (HISCORE_RESPONSE_ACTIVITY_COLS c) (line_values l))
                       (drop (length (HISCORES_RESPONSE_SKILLS c)) (lines_of body))))
           = HISCORES_RESPONSE_ACTIVITIES c"
proof -
  let ?N = "length (HISCORES_RESPONSE_SKILLS c)"
  have t: "take (length (HISCORES_RESPONSE_ACTIVITIES c)) (drop ?N (lines_of body))
             = drop ?N (lines_of body)"
    using len by simp
  have "snd (sanitize_hiscores_stats c body) =
           Inr \<lparr> skills = zip (HISCORES_RESPONSE_SKILLS c)
                    (map (\<lambda>l. zip (HISCORES_RESPONSE_SKILL_COLS c) (line_values l))
                       (take ?N (lines_of body))),
                 activities = zip (HISCORES_RESPONSE_ACTIVITIES c)
                    (map (\<lambda>l. zip (HISCORE_RESPONSE_ACTIVITY_COLS c) (line_values l))
                       (drop ?N (lines_of body))) \<rparr>"
    using sanitize_ok_distinct [of c body] skill act d unfolding t by blast
  moreover have "fst (sanitize_hiscores_stats c body) = []"
    using len by (simp add: sanitize_fst)
  ultimately have "sanitize_hiscores_stats c body =
           ([], Inr \<lparr> skills = zip (HISCORES_RESPONSE_SKILLS c)
                    (map (\<lambda>l. zip (HISCORES_RESPONSE_SKILL_COLS c) (line_values l))
                       (take ?N (lines_of body))),
                 activities = zip (HISCORES_RESPONSE_ACTIVITIES c)
                    (map (\<lambda>l. zip (HISCORE_RESPONSE_ACTIVITY_COLS c) (line_values l))
                       (drop ?N (lines_of body))) \<rparr>)"
    by (simp add: prod_eq_iff)
  then show ?thesis using len by (simp add: map_fst_zip_take)
qed

theorem sanitize_well_formed_witness:
  "sanitize_hiscores_stats constants_example payload_example =
     ([], Inr \<lparr> skills = [(''Overall'', [(''rank'', 1), (''level'', 2), (''experience'', 3)]),
                          (''Attack'', [(''rank'', 4), (''level'', 5), (''experience'', 6)])],
                activities = [(''League Points'', [(''rank'', -1), (''score'', -1)]),
                              (''Clue Scrolls (all)'', [(''rank'', 7), (''score'', 8)])] \<rparr>)"
proof -
  have len: "length (lines_of payload_example)
             = length (HISCORES_RESPONSE_SKILLS constants_example)
               + length (HISCORES_RESPONSE_ACTIVITIES constants_example)"
    by (simp add: lines_of_payload_example constants_example_def)
  have skill: "\<forall>l \<in> set (take (length (HISCORES_RESPONSE_SKILLS constants_example))
                           (lines_of payload_example)).
                    line_ok (HISCORES_RESPONSE_SKILL_COLS constants_example) l"
    by (simp add: lines_of_payload_example constants_example_def line_ok_examples)
  have act: "\<forall>l \<in> set (drop (length (HISCORES_RESPONSE_SKILLS constants_example))
                           (lines_of payload_example)).
                    line_ok (HISCORE_RESPONSE_ACTIVITY_COLS constants_example) l"
    by (simp add: lines_of_payload_example constants_example_def line_ok_examples)
  have d: "distinct (HISCORES_RESPONSE_SKILLS constants_example)"
    "distinct (HISCORES_RESPONSE_ACTIVITIES constants_example)"
    "distinct (HISCORES_RESPONSE_SKILL_COLS constants_example)"
    "distinct (HISCORE_RESPONSE_ACTIVITY_COLS constants_example)"
    by (simp_all add: constants_example_def)
  from sanitize_well_formed [OF len skill act d]
  show ?thesis
    by (simp add: lines_of_payload_example constants_example_def line_values_examples)
qed

lemma sanitize_prefix:
  assumes "take (length (HISCORES_RESPONSE_SKILLS c) + length (HISCORES_RESPONSE_ACTIVITIES c))
             (lines_of b1)
         = take (length (HISCORES_RESPONSE_SKILLS c) + length (HISCORES_RESPONSE_ACTIVITIES c))
             (lines_of b2)"
  shows "snd (sanitize_hiscores_stats c b1) = snd (sanitize_hiscores_stats c b2)"
proof -
  let ?N = "length (HISCORES_RESPONSE_SKILLS c)"
  let ?M = "length (HISCORES_RESPONSE_ACTIVITIES c)"
  have s: "take ?N (lines_of b) = take ?N (take (?N + ?M) (lines_of b))" for b
    by (simp add: min_def)
  have a: "take ?M (drop ?N (lines_of b)) = drop ?N (take (?N + ?M) (lines_of b))" for b
    by (simp add: drop_take)
  have s': "take ?N (lines_of b1) = take ?N (lines_of b2)"
    by (subst s [of b1], subst s [of b2]) (simp only: assms)
  have a': "take ?M (drop ?N (lines_of b1)) = take ?M (drop ?N (lines_of b2))"
    by (simp only: a assms)
  have "zip_map (parse_activity_line c) (HISCORES_RESPONSE_ACTIVITIES c) (drop ?N (lines_of b1))
      = zip_map (parse_activity_line c) (HISCORES_RESPONSE_ACTIVITIES c)
          (take ?M (drop ?N (lines_of b1)))"
    by (rule zip_map_take)
  also have "\<dots> = zip_map (parse_activity_line c) (HISCORES_RESPONSE_ACTIVITIES c)
          (take ?M (drop ?N (lines_of b2)))"
    by (simp only: a')
  also have "\<dots> = zip_map (parse_activity_line c) (HISCORES_RESPONSE_ACTIVITIES c)
          (drop ?N (lines_of b2))"
    by (rule zip_map_take [symmetric])
  finally show ?thesis unfolding sanitize_snd s' by (simp only:)
qed

text \<open>
  Claim C10. When the text has more lines than the catalogs have labels, and the lines
  under the labels are well formed, the parser succeeds with the result of the first
  lines only: nothing is asked of the surplus lines, and every body whose lines are
  exactly those first lines gives the same result.
\<close>

theorem sanitize_surplus_lines:
  assumes len: "length (HISCORES_RESPONSE_SKILLS c) + length (HISCORES_RESPONSE_ACTIVITIES c)
                  < length (lines_of body)"
      and skill: "\<forall>l \<in> set (take (length (HISCORES_RESPONSE_SKILLS c)) (lines_of body)).
                    line_ok (HISCORES_RESPONSE_SKILL_COLS c) l"
      and act: "\<forall>l \<in> set (take (length (HISCORES_RESPONSE_ACTIVITIES c))
                             (drop (length (HISCORES_RESPONSE_SKILLS c)) (lines_of body))).
                    line_ok (HISCORE_RESPONSE_ACTIVITY_COLS c) l"
      and d: "distinct (HISCORES_RESPONSE_SKILLS c)" "distinct (HISCORES_RESPONSE_ACTIVITIES c)"
        "distinct (HISCORES_RESPONSE_SKILL_COLS c)" "distinct (HISCORE_RESPONSE_ACTIVITY_COLS c)"
  shows "snd (sanitize_hiscores_stats c body) =
           Inr \<lparr> skills = zip (HISCORES_RESPONSE_SKILLS c)
                    (map (\<lambda>l. zip (HISCORES_RESPONSE_SKILL_COLS c) (line_values l))
                       (take (length (HISCORES_RESPONSE_SKILLS c)) (lines_of body))),
                 activities = zip (HISCORES_RESPONSE_ACTIVITIES c)
                    (map (\<lambda>l. zip (HISCORE_RESPONSE_ACTIVITY_COLS c) (line_values l))
                       (take (length (HISCORES_RESPONSE_ACTIVITIES c))
                          (drop (length (HISCORES_RESPONSE_SKILLS c)) (lines_of body)))) \<rparr>
       \<and> (\<forall>body'. lines_of body'
               = take (length (HISCORES_RESPONSE_SKILLS c) + length (HISCORES_RESPONSE_ACTIVITIES c))
                   (lines_of body)
             \<longrightarrow> snd (sanitize_hiscores_stats c body) = snd (sanitize_hiscores_stats c body'))"
proof
  show "snd (sanitize_hiscores_stats c body) =
           Inr \<lparr> skills = zip (HISCORES_RESPONSE_SKILLS c)
                    (map (\<lambda>l. zip (HISCORES_RESPONSE_SKILL_COLS c) (line_values l))
                       (take (length (HISCORES_RESPONSE_SKILLS c)) (lines_of body))),
                 activities = zip (HISCORES_RESPONSE_ACTIVITIES c)
                    (map (\<lambda>l. zip (HISCORE_RESPONSE_ACTIVITY_COLS c) (line_values l))
                       (take (length (HISCORES_RESPONSE_ACTIVITIES c))
                          (drop (length (HISCORES_RESPONSE_SKILLS c)) (lines_of body)))) \<rparr>"
    using sanitize_ok_distinct [of c body] skill act d by blast
  show "\<forall>body'. lines_of body'
               = take (length (HISCORES_RESPONSE_SKILLS c) + length (HISCORES_RESPONSE_ACTIVITIES c))
                   (lines_of body)
             \<longrightarrow> snd (sanitize_hiscores_stats c body) = snd (sanitize_hiscores_stats c body')"
  proof (intro allI impI)
    fix body'
    assume "lines_of body'
               = take (length (HISCORES_RESPONSE_SKILLS c) + length (HISCORES_RESPONSE_ACTIVITIES c))
                   (lines_of body)"
    then show "snd (sanitize_hiscores_stats c body) = snd (sanitize_hiscores_stats c body')"
      by (intro sanitize_prefix) simp
  qed
qed

theorem sanitize_surplus_lines_witness:
  "\<not> line_ok (HISCORE_RESPONSE_ACTIVITY_COLS constants_example) (lines_of payload_surplus ! 4)
   \<and> snd (sanitize_hiscores_stats constants_example payload_surplus) =
     Inr \<lparr> skills = [(''Overall'', [(''rank'', 1), (''level'', 2), (''experience'', 3)]),
                     (''Attack'', [(''rank'', 4), (''level'', 5), (''experience'', 6)])],
           activities = [(''League Points'', [(''rank'', -1), (''score'', -1)]),
                         (''Clue Scrolls (all)'', [(''rank'', 7), (''score'', 8)])] \<rparr>
   \<and> snd (sanitize_hiscores_stats constants_example payload_surplus)
       = snd (sanitize_hiscores_stats constants_example payload_example)"
proof -
  have bad: "\<not> line_ok [''rank'', ''score''] ''x,y,z''" by code_simp
  have len: "length (HISCORES_RESPONSE_SKILLS constants_example)
               + length (HISCORES_RESPONSE_ACTIVITIES constants_example)
             < length (lines_of payload_surplus)"
    by (simp add: lines_of_payload_surplus constants_example_def)
  have skill: "\<forall>l \<in> set (take (length (HISCORES_RESPONSE_SKILLS constants_example))
                           (lines_of payload_surplus)).
                    line_ok (HISCORES_RESPONSE_SKILL_COLS constants_example) l"
    by (simp add: lines_of_payload_surplus constants_example_def line_ok_examples)
  have act: "\<forall>l \<in> set (take (length (HISCORES_RESPONSE_ACTIVITIES constants_example))
                       (drop (length (HISCORES_RESPONSE_SKILLS constants_example))
                           (lines_of payload_surplus))).
                    line_ok (HISCORE_RESPONSE_ACTIVITY_COLS constants_example) l"
    by (simp add: lines_of_payload_surplus constants_example_def line_ok_examples)
  have d: "distinct (HISCORES_RESPONSE_SKILLS constants_example)"
    "distinct (HISCORES_RESPONSE_ACTIVITIES constants_example)"
    "distinct (HISCORES_RESPONSE_SKILL_COLS constants_example)"
    "distinct (HISCORE_RESPONSE_ACTIVITY_COLS constants_example)"
    by (simp_all add: constants_example_def)
  have same: "lines_of payload_example
               = take (length (HISCORES_RESPONSE_SKILLS constants_example)
                       + length (HISCORES_RESPONSE_ACTIVITIES constants_example))
                   (lines_of payload_surplus)"
    by (simp add: lines_of_payload_surplus lines_of_payload_example constants_example_def)
  note th = sanitize_surplus_lines [OF len skill act d]
  from th [THEN conjunct1] have r: "snd (sanitize_hiscores_stats constants_example payload_surplus) =
     Inr \<lparr> skills = [(''Overall'', [(''rank'', 1), (''level'', 2), (''experience'', 3)]),
                     (''Attack'', [(''rank'', 4), (''level'', 5), (''experience'', 6)])],
           activities = [(''League Points'', [(''rank'', -1), (''score'', -1)]),
                         (''Clue Scrolls (all)'', [(''rank'', 7), (''score'', 8)])] \<rparr>"
    by (simp add: lines_of_payload_surplus constants_example_def line_values_examples)
  from th [THEN conjunct2, rule_format, OF same]
  have e: "snd (sanitize_hiscores_stats constants_example payload_surplus)
       = snd (sanitize_hiscores_stats constants_example payload_example)" .
  have b: "\<not> line_ok (HISCORE_RESPONSE_ACTIVITY_COLS constants_example)
             (lines_of payload_surplus ! 4)"
    using bad by (simp add: lines_of_payload_surplus constants_example_def)
  from r e b show ?thesis by blast
qed

lemma lines_of_empty: "lines_of [] = [[]]"
  by (simp add: lines_of_def strip_def)

lemma fields_of_empty: "fields_of [] = [[]]"
  by (simp add: fields_of_def)

text \<open>
  Claim C7. The empty text is one empty line. With a skill catalog that is not empty and
  a skill schema of more than one field, the parser raises the error of a malformed skill
  line; it returns no result.
\<close>

theorem sanitize_empty:
  assumes "HISCORES_RESPONSE_SKILLS c \<noteq> []"
      and "1 < length (HISCORES_RESPONSE_SKILL_COLS c)"
  shows "lines_of [] = [[]]
       \<and> snd (sanitize_hiscores_stats c []) =
           Inl (ValueError_from Skill_line_malformatted
                  (InvalidSchemaError (Schema_invalid_for_line (HISCORES_RESPONSE_SKILL_COLS c) [])))"
proof -
  have "snd (sanitize_hiscores_stats c []) =
           Inl (ValueError_from Skill_line_malformatted
                  (InvalidSchemaError
                     (Schema_invalid_for_line (HISCORES_RESPONSE_SKILL_COLS c) (lines_of [] ! 0))))"
  proof (rule sanitize_skill_count_error)
    show "0 < length (HISCORES_RESPONSE_SKILLS c)" using assms(1) by simp
    show "0 < length (lines_of [])" by (simp add: lines_of_empty)
    show "length (fields_of (lines_of [] ! 0)) \<noteq> length (HISCORES_RESPONSE_SKILL_COLS c)"
      using assms(2) by (simp add: lines_of_empty fields_of_empty)
  qed simp
  then show ?thesis by (simp add: lines_of_empty)
qed

theorem sanitize_empty_witness:
  "snd (sanitize_hiscores_stats constants_example []) =
     Inl (ValueError_from Skill_line_malformatted
            (InvalidSchemaError (Schema_invalid_for_line [''rank'', ''level'', ''experience''] [])))"
proof -
  have a: "HISCORES_RESPONSE_SKILLS constants_example \<noteq> []"
    and b: "1 < length (HISCORES_RESPONSE_SKILL_COLS constants_example)"
    by (simp_all add: constants_example_def)
  from sanitize_empty [OF a b] show ?thesis by (simp add: constants_example_def)
qed

text \<open>
  Claim C1 says that an accepted text gives every label of both catalogs. A text of one
  good line is accepted, and the result lacks the second skill and every activity.
\<close>

theorem sanitize_truncated_counterexample:
  "snd (sanitize_hiscores_stats constants_example ''1,2,3'') =
     Inr \<lparr> skills = [(''Overall'', [(''rank'', 1), (''level'', 2), (''experience'', 3)])],
           activities = [] \<rparr>
   \<and> ''Attack'' \<in> set (HISCORES_RESPONSE_SKILLS constants_example)
   \<and> ''League Points'' \<in> set (HISCORES_RESPONSE_ACTIVITIES constants_example)"
  by code_simp

text \<open>
  Claim C1, as the code has it. A result of the parser holds each key once; the keys of
  \<open>skills\<close> are the first labels of the skill catalog, as many as there are lines (at most
  the whole catalog), and the keys of \<open>activities\<close> are the first labels of the activity
  catalog, as many as there are lines after the skill lines. Every label is present when
  the text has at least as many lines as the catalogs have labels.
\<close>

theorem sanitize_labels:
  assumes "snd (sanitize_hiscores_stats c body) = Inr st"
  shows "set (keys (skills st))
           = set (take (length (lines_of body)) (HISCORES_RESPONSE_SKILLS c))
       \<and> set (keys (activities st))
           = set (take (length (lines_of body) - length (HISCORES_RESPONSE_SKILLS c))
                   (HISCORES_RESPONSE_ACTIVITIES c))
       \<and> distinct (keys (skills st)) \<and> distinct (keys (activities st))
       \<and> (length (HISCORES_RESPONSE_SKILLS c) + length (HISCORES_RESPONSE_ACTIVITIES c)
            \<le> length (lines_of body)
          \<longrightarrow> set (keys (skills st)) = set (HISCORES_RESPONSE_SKILLS c)
              \<and> set (keys (activities st)) = set (HISCORES_RESPONSE_ACTIVITIES c))"
proof -
  let ?N = "length (HISCORES_RESPONSE_SKILLS c)"
  from assms obtain ps qs where
    ps: "zip_map (parse_skill_line c) (HISCORES_RESPONSE_SKILLS c)
           (take ?N (lines_of body)) = Inr ps" and
    qs: "zip_map (parse_activity_line c) (HISCORES_RESPONSE_ACTIVITIES c)
           (drop ?N (lines_of body)) = Inr qs" and
    st: "st = \<lparr> skills = dict ps, activities = dict qs \<rparr>"
    by (rule sanitize_Inr_D)
  have "map fst ps = take (length (take ?N (lines_of body))) (HISCORES_RESPONSE_SKILLS c)"
    using ps by (rule zip_map_keys)
  then have kp: "map fst ps = take (length (lines_of body)) (HISCORES_RESPONSE_SKILLS c)"
    by (simp add: min_def)
  have "map fst qs = take (length (drop ?N (lines_of body))) (HISCORES_RESPONSE_ACTIVITIES c)"
    using qs by (rule zip_map_keys)
  then have kq: "map fst qs = take (length (lines_of body) - ?N) (HISCORES_RESPONSE_ACTIVITIES c)"
    by simp
  have s1: "set (keys (skills st)) = set (take (length (lines_of body)) (HISCORES_RESPONSE_SKILLS c))"
    unfolding st using kp by (simp add: set_keys_dict flip: set_map)
  have s2: "set (keys (activities st))
           = set (take (length (lines_of body) - ?N) (HISCORES_RESPONSE_ACTIVITIES c))"
    unfolding st using kq by (simp add: set_keys_dict flip: set_map)
  have d: "distinct (keys (skills st))" "distinct (keys (activities st))"
    unfolding st by (simp_all add: distinct_keys_dict)
  from s1 s2 d show ?thesis by simp
qed

theorem sanitize_labels_witness:
  "set (keys (skills \<lparr> skills = [(''Overall'', [(''rank'', 1), (''level'', 2), (''experience'', 3)])],
                       activities = [] \<rparr>)) = {''Overall''}
   \<and> set (keys (skills \<lparr> skills =
                         [(''Overall'', [(''rank'', 1), (''level'', 2), (''experience'', 3)]),
                          (''Attack'', [(''rank'', 4), (''level'', 5), (''experience'', 6)])],
                       activities =
                         [(''League Points'', [(''rank'', -1), (''score'', -1)]),
                          (''Clue Scrolls (all)'', [(''rank'', 7), (''score'', 8)])] \<rparr>))
       = set (HISCORES_RESPONSE_SKILLS constants_example)"
proof -
  have a: "snd (sanitize_hiscores_stats constants_example ''1,2,3'') =
     Inr \<lparr> skills = [(''Overall'', [(''rank'', 1), (''level'', 2), (''experience'', 3)])],
           activities = [] \<rparr>"
    by code_simp
  have b: "snd (sanitize_hiscores_stats constants_example payload_example) =
     Inr \<lparr> skills = [(''Overall'', [(''rank'', 1), (''level'', 2), (''experience'', 3)]),
                          (''Attack'', [(''rank'', 4), (''level'', 5), (''experience'', 6)])],
           activities = [(''League Points'', [(''rank'', -1), (''score'', -1)]),
                          (''Clue Scrolls (all)'', [(''rank'', 7), (''score'', 8)])] \<rparr>"
    by code_simp
  have len: "length (HISCORES_RESPONSE_SKILLS constants_example)
               + length (HISCORES_RESPONSE_ACTIVITIES constants_example)
             \<le> length (lines_of payload_example)"
    by (simp add: lines_of_payload_example constants_example_def)
  from sanitize_labels [OF a] have "set (keys (skills \<lparr> skills = [(''Overall'', [(''rank'', 1), (''level'', 2), (''experience'', 3)])],
                       activities = [] \<rparr>)) = {''Overall''}"
    by (simp add: lines_of_one_line constants_example_def)
  moreover from sanitize_labels [OF b] len
  have "set (keys (skills \<lparr> skills =
                         [(''Overall'', [(''rank'', 1), (''level'', 2), (''experience'', 3)]),
                          (''Attack'', [(''rank'', 4), (''level'', 5), (''experience'', 6)])],
                       activities =
                         [(''League Points'', [(''rank'', -1), (''score'', -1)]),
                          (''Clue Scrolls (all)'', [(''rank'', 7), (''score'', 8)])] \<rparr>))
       = set (HISCORES_RESPONSE_SKILLS constants_example)"
    by blast
  ultimately show ?thesis by blast
qed

lemma first_such: "P (i::nat) \<Longrightarrow> \<exists>k\<le>i. P k \<and> (\<forall>j<k. \<not> P j)"
proof -
  assume "P i"
  then have "P (LEAST k. P k)" by (rule LeastI)
  moreover have "(LEAST k. P k) \<le> i" using \<open>P i\<close> by (rule Least_le)
  moreover have "\<forall>j<(LEAST k. P k). \<not> P j" using not_less_Least by blast
  ultimately show ?thesis by blast
qed

lemma sanitize_skill_mismatch_fails:
  assumes i: "i < length (HISCORES_RESPONSE_SKILLS c)" "i < length (lines_of body)"
      and bad: "length (fields_of (lines_of body ! i)) \<noteq> length (HISCORES_RESPONSE_SKILL_COLS c)"
  shows "\<exists>e. snd (sanitize_hiscores_stats c body) = Inl e"
proof (cases "snd (sanitize_hiscores_stats c body)")
  case (Inl e)
  then show ?thesis by blast
next
  case (Inr st)
  have "lines_of body ! i \<in> set (take (length (HISCORES_RESPONSE_SKILLS c)) (lines_of body))"
    using i by (auto simp: in_set_conv_nth intro!: exI [of _ i])
  with sanitize_Inr_lines_ok [OF Inr]
  have "line_ok (HISCORES_RESPONSE_SKILL_COLS c) (lines_of body ! i)" by blast
  with bad show ?thesis by (simp add: line_ok_def)
qed

lemma sanitize_activity_mismatch_fails:
  assumes k: "k < length (HISCORES_RESPONSE_ACTIVITIES c)"
             "length (HISCORES_RESPONSE_SKILLS c) + k < length (lines_of body)"
      and bad: "length (fields_of (lines_of body ! (length (HISCORES_RESPONSE_SKILLS c) + k)))
                  \<noteq> length (HISCORE_RESPONSE_ACTIVITY_COLS c)"
  shows "\<exists>e. snd (sanitize_hiscores_stats c body) = Inl e"
proof (cases "snd (sanitize_hiscores_stats c body)")
  case (Inl e)
  then show ?thesis by blast
next
  case (Inr st)
  let ?ys = "take (length (HISCORES_RESPONSE_ACTIVITIES c))
               (drop (length (HISCORES_RESPONSE_SKILLS c)) (lines_of body))"
  have "k < length ?ys" using k by simp
  moreover have "?ys ! k = lines_of body ! (length (HISCORES_RESPONSE_SKILLS c) + k)"
    using k by simp
  ultimately have "lines_of body ! (length (HISCORES_RESPONSE_SKILLS c) + k) \<in> set ?ys"
    by (metis nth_mem)
  with sanitize_Inr_lines_ok [OF Inr]
  have "line_ok (HISCORE_RESPONSE_ACTIVITY_COLS c)
          (lines_of body ! (length (HISCORES_RESPONSE_SKILLS c) + k))" by blast
  with bad show ?thesis by (simp add: line_ok_def)
qed

lemma sanitize_skill_mismatch_error:
  assumes i: "i < length (HISCORES_RESPONSE_SKILLS c)" "i < length (lines_of body)"
      and bad: "length (fields_of (lines_of body ! i)) \<noteq> length (HISCORES_RESPONSE_SKILL_COLS c)"
      and ints: "\<forall>j<i. length (fields_of (lines_of body ! j))
                        = length (HISCORES_RESPONSE_SKILL_COLS c)
                     \<longrightarrow> all_integers (lines_of body ! j)"
  shows "\<exists>k\<le>i. snd (sanitize_hiscores_stats c body) =
           Inl (ValueError_from Skill_line_malformatted
                  (InvalidSchemaError
                     (Schema_invalid_for_line (HISCORES_RESPONSE_SKILL_COLS c) (lines_of body ! k))))"
proof -
  from first_such [of "\<lambda>j. length (fields_of (lines_of body ! j))
                              \<noteq> length (HISCORES_RESPONSE_SKILL_COLS c)" i, OF bad]
  obtain k where k: "k \<le> i"
    "length (fields_of (lines_of body ! k)) \<noteq> length (HISCORES_RESPONSE_SKILL_COLS c)"
    "\<forall>j<k. length (fields_of (lines_of body ! j)) = length (HISCORES_RESPONSE_SKILL_COLS c)"
    by auto
  have "snd (sanitize_hiscores_stats c body) =
           Inl (ValueError_from Skill_line_malformatted
                  (InvalidSchemaError
                     (Schema_invalid_for_line (HISCORES_RESPONSE_SKILL_COLS c) (lines_of body ! k))))"
  proof (rule sanitize_skill_count_error)
    show "k < length (HISCORES_RESPONSE_SKILLS c)" "k < length (lines_of body)"
      using k(1) i by simp_all
    show "length (fields_of (lines_of body ! k)) \<noteq> length (HISCORES_RESPONSE_SKILL_COLS c)"
      by (rule k(2))
    show "line_ok (HISCORES_RESPONSE_SKILL_COLS c) (lines_of body ! j)" if "j < k" for j
    proof -
      from that k(1) have "j < i" by simp
      with ints k(3) that show ?thesis by (simp add: line_ok_def)
    qed
  qed
  with k(1) show ?thesis by blast
qed

lemma sanitize_activity_mismatch_error:
  assumes skill: "\<forall>l \<in> set (take (length (HISCORES_RESPONSE_SKILLS c)) (lines_of body)).
                    line_ok (HISCORES_RESPONSE_SKILL_COLS c) l"
      and i: "i < length (HISCORES_RESPONSE_ACTIVITIES c)"
             "length (HISCORES_RESPONSE_SKILLS c) + i < length (lines_of body)"
      and bad: "length (fields_of (lines_of body ! (length (HISCORES_RESPONSE_SKILLS c) + i)))
                  \<noteq> length (HISCORE_RESPONSE_ACTIVITY_COLS c)"
      and ints: "\<forall>j<i. length (fields_of (lines_of body ! (length (HISCORES_RESPONSE_SKILLS c) + j)))
                        = length (HISCORE_RESPONSE_ACTIVITY_COLS c)
                     \<longrightarrow> all_integers (lines_of body ! (length (HISCORES_RESPONSE_SKILLS c) + j))"
  shows "\<exists>k\<le>i. snd (sanitize_hiscores_stats c body) =
           Inl (ValueError_from Activity_line_malformatted
                  (InvalidSchemaError
                     (Schema_invalid_for_line (HISCORE_RESPONSE_ACTIVITY_COLS c)
                        (lines_of body ! (length (HISCORES_RESPONSE_SKILLS c) + k)))))"
proof -
  let ?N = "length (HISCORES_RESPONSE_SKILLS c)"
  from first_such [of "\<lambda>j. length (fields_of (lines_of body ! (?N + j)))
                              \<noteq> length (HISCORE_RESPONSE_ACTIVITY_COLS c)" i, OF bad]
  obtain k where k: "k \<le> i"
    "length (fields_of (lines_of body ! (?N + k))) \<noteq> length (HISCORE_RESPONSE_ACTIVITY_COLS c)"
    "\<forall>j<k. length (fields_of (lines_of body ! (?N + j))) = length (HISCORE_RESPONSE_ACTIVITY_COLS c)"
    by auto
  have "snd (sanitize_hiscores_stats c body) =
           Inl (ValueError_from Activity_line_malformatted
                  (InvalidSchemaError
                     (Schema_invalid_for_line (HISCORE_RESPONSE_ACTIVITY_COLS c)
                        (lines_of body ! (?N + k)))))"
  proof (rule sanitize_activity_count_error)
    show "line_ok (HISCORES_RESPONSE_SKILL_COLS c) l"
      if "l \<in> set (take ?N (lines_of body))" for l using that skill by blast
    show "k < length (HISCORES_RESPONSE_ACTIVITIES c)" "?N + k < length (lines_of body)"
      using k(1) i by simp_all
    show "length (fields_of (lines_of body ! (?N + k))) \<noteq> length (HISCORE_RESPONSE_ACTIVITY_COLS c)"
      by (rule k(2))
    show "line_ok (HISCORE_RESPONSE_ACTIVITY_COLS c) (lines_of body ! (?N + j))" if "j < k" for j
    proof -
      from that k(1) have "j < i" by simp
      with ints k(3) that show ?thesis by (simp add: line_ok_def)
    qed
  qed
  with k(1) show ?thesis by blast
qed

lemma parse_line_literal_error:
  assumes cnt: "length (fields_of line) = length schema"
      and bad: "\<not> all_integers line"
  shows "\<exists>f\<in>set (fields_of line). py_int f = None
           \<and> parse_hiscores_response_line line schema = Inl (ValueError (Invalid_literal_for_int f))"
proof (cases "parse_hiscores_response_line line schema")
  case (Inl e)
  from parse_line_Inl_cases [OF Inl] cnt Inl show ?thesis by auto
next
  case (Inr d)
  then have "line_ok schema line" by (rule parse_line_Inr_ok)
  with bad show ?thesis by (simp add: line_ok_def)
qed

lemma skill_lines_ok:
  assumes "\<And>l. l \<in> set (take (length (HISCORES_RESPONSE_SKILLS c)) (lines_of body))
            \<Longrightarrow> line_ok (HISCORES_RESPONSE_SKILL_COLS c) l"
  shows "zip_map (parse_skill_line c) (HISCORES_RESPONSE_SKILLS c)
           (take (length (HISCORES_RESPONSE_SKILLS c)) (lines_of body))
         = Inr (zip (HISCORES_RESPONSE_SKILLS c)
                  (map (\<lambda>l. dict (zip (HISCORES_RESPONSE_SKILL_COLS c) (line_values l)))
                     (take (length (HISCORES_RESPONSE_SKILLS c)) (lines_of body))))"
proof (rule zip_map_ok)
  fix y
  assume "y \<in> set (take (length (HISCORES_RESPONSE_SKILLS c))
                     (take (length (HISCORES_RESPONSE_SKILLS c)) (lines_of body)))"
  then have "line_ok (HISCORES_RESPONSE_SKILL_COLS c) y" using assms by simp
  then show "parse_skill_line c y
               = Inr (dict (zip (HISCORES_RESPONSE_SKILL_COLS c) (line_values y)))"
    unfolding parse_skill_line_def by (rule parse_line_ok)
qed

lemma sanitize_skill_literal_error:
  assumes j: "j < length (HISCORES_RESPONSE_SKILLS c)" "j < length (lines_of body)"
      and before: "\<And>j'. j' < j \<Longrightarrow> line_ok (HISCORES_RESPONSE_SKILL_COLS c) (lines_of body ! j')"
      and cnt: "length (fields_of (lines_of body ! j)) = length (HISCORES_RESPONSE_SKILL_COLS c)"
      and bad: "\<not> all_integers (lines_of body ! j)"
  shows "\<exists>f\<in>set (fields_of (lines_of body ! j)). py_int f = None
           \<and> snd (sanitize_hiscores_stats c body) = Inl (ValueError (Invalid_literal_for_int f))"
proof -
  let ?N = "length (HISCORES_RESPONSE_SKILLS c)"
  let ?ys = "take ?N (lines_of body)"
  from parse_line_literal_error [OF cnt bad] obtain f where
    f: "f \<in> set (fields_of (lines_of body ! j))" "py_int f = None"
       "parse_skill_line c (lines_of body ! j) = Inl (ValueError (Invalid_literal_for_int f))"
    unfolding parse_skill_line_def by blast
  have "zip_map (parse_skill_line c) (HISCORES_RESPONSE_SKILLS c) ?ys
          = Inl (ValueError (Invalid_literal_for_int f))"
  proof (rule zip_map_first_error [where i = j])
    show "j < ?N" by (rule j(1))
    show "j < length ?ys" using j by simp
    show "parse_skill_line c (?ys ! j) = Inl (ValueError (Invalid_literal_for_int f))"
      using j f(3) by simp
    show "\<exists>v. parse_skill_line c (?ys ! j') = Inr v" if "j' < j" for j'
      using that j before [OF that] by (simp add: parse_skill_line_def parse_line_ok)
  qed
  then have "snd (sanitize_hiscores_stats c body) = Inl (ValueError (Invalid_literal_for_int f))"
    unfolding sanitize_snd by simp
  with f(1,2) show ?thesis by blast
qed

lemma sanitize_activity_literal_error:
  assumes skill: "\<forall>l \<in> set (take (length (HISCORES_RESPONSE_SKILLS c)) (lines_of body)).
                    line_ok (HISCORES_RESPONSE_SKILL_COLS c) l"
      and j: "j < length (HISCORES_RESPONSE_ACTIVITIES c)"
             "length (HISCORES_RESPONSE_SKILLS c) + j < length (lines_of body)"
      and before: "\<And>j'. j' < j \<Longrightarrow> line_ok (HISCORE_RESPONSE_ACTIVITY_COLS c)
                      (lines_of body ! (length (HISCORES_RESPONSE_SKILLS c) + j'))"
      and cnt: "length (fields_of (lines_of body ! (length (HISCORES_RESPONSE_SKILLS c) + j)))
                  = length (HISCORE_RESPONSE_ACTIVITY_COLS c)"
      and bad: "\<not> all_integers (lines_of body ! (length (HISCORES_RESPONSE_SKILLS c) + j))"
  shows "\<exists>f\<in>set (fields_of (lines_of body ! (length (HISCORES_RESPONSE_SKILLS c) + j))).
           py_int f = None
           \<and> snd (sanitize_hiscores_stats c body) = Inl (ValueError (Invalid_literal_for_int f))"
proof -
  let ?N = "length (HISCORES_RESPONSE_SKILLS c)"
  let ?ys = "drop ?N (lines_of body)"
  from parse_line_literal_error [OF cnt bad] obtain f where
    f: "f \<in> set (fields_of (lines_of body ! (?N + j)))" "py_int f = None"
       "parse_activity_line c (lines_of body ! (?N + j)) = Inl (ValueError (Invalid_literal_for_int f))"
    unfolding parse_activity_line_def by blast
  have s: "zip_map (parse_skill_line c) (HISCORES_RESPONSE_SKILLS c) (take ?N (lines_of body))
         = Inr (zip (HISCORES_RESPONSE_SKILLS c)
                  (map (\<lambda>l. dict (zip (HISCORES_RESPONSE_SKILL_COLS c) (line_values l)))
                     (take ?N (lines_of body))))"
    using skill by (intro skill_lines_ok) blast
  have a: "zip_map (parse_activity_line c) (HISCORES_RESPONSE_ACTIVITIES c) ?ys
          = Inl (ValueError (Invalid_literal_for_int f))"
  proof (rule zip_map_first_error [where i = j])
    show "j < length (HISCORES_RESPONSE_ACTIVITIES c)" by (rule j(1))
    show "j < length ?ys" using j by simp
    show "parse_activity_line c (?ys ! j) = Inl (ValueError (Invalid_literal_for_int f))"
      using j f(3) by simp
    show "\<exists>v. parse_activity_line c (?ys ! j') = Inr v" if "j' < j" for j'
      using that j before [OF that] by (simp add: parse_activity_line_def parse_line_ok)
  qed
  have "snd (sanitize_hiscores_stats c body) = Inl (ValueError (Invalid_literal_for_int f))"
    unfolding sanitize_snd by (simp add: s a)
  with f(1,2) show ?thesis by blast
qed

text \<open>
  Claim C5 says that a skill line with a wrong number of fields gives the error of a
  malformed skill line. Here the second line has two fields, yet the error is that of
  \<^verbatim>\<open>int\<close> on the first line.
\<close>

theorem sanitize_field_count_counterexample:
  "lines_of payload_bad_literal = [''a,b,c'', ''4,5'']
   \<and> length (fields_of ''4,5'') \<noteq> length (HISCORES_RESPONSE_SKILL_COLS constants_example)
   \<and> length (HISCORES_RESPONSE_SKILLS constants_example) = 2
   \<and> snd (sanitize_hiscores_stats constants_example payload_bad_literal)
       = Inl (ValueError (Invalid_literal_for_int ''a''))"
  by code_simp

text \<open>
  Claim C5, as the code has it. A line under a skill label whose number of fields is not
  that of the skill schema makes the parser raise, never return. The error is that of a
  malformed skill line when no earlier line of the right number of fields has a field
  that is not an integer. When the first line that is not well formed is an earlier line
  of the right number of fields, the error is the \<^verbatim>\<open>ValueError\<close> of \<^verbatim>\<open>int\<close> on one of its
  fields, as \<^verbatim>\<open>int\<close> raised it. The same holds for a line under an activity label and the
  error of a malformed activity line, when the skill lines are well formed.
\<close>

theorem sanitize_field_count:
  "(i < length (HISCORES_RESPONSE_SKILLS c) \<and> i < length (lines_of body)
      \<and> length (fields_of (lines_of body ! i)) \<noteq> length (HISCORES_RESPONSE_SKILL_COLS c)
    \<longrightarrow> (\<exists>e. snd (sanitize_hiscores_stats c body) = Inl e)
        \<and> ((\<forall>j<i. length (fields_of (lines_of body ! j))
                      = length (HISCORES_RESPONSE_SKILL_COLS c)
                   \<longrightarrow> all_integers (lines_of body ! j))
           \<longrightarrow> (\<exists>k\<le>i. snd (sanitize_hiscores_stats c body) =
                  Inl (ValueError_from Skill_line_malformatted
                        (InvalidSchemaError
                           (Schema_invalid_for_line (HISCORES_RESPONSE_SKILL_COLS c)
                              (lines_of body ! k))))))
        \<and> (\<forall>j<i. (\<forall>j'<j. line_ok (HISCORES_RESPONSE_SKILL_COLS c) (lines_of body ! j'))
                 \<and> length (fields_of (lines_of body ! j))
                     = length (HISCORES_RESPONSE_SKILL_COLS c)
                 \<and> \<not> all_integers (lines_of body ! j)
              \<longrightarrow> (\<exists>f\<in>set (fields_of (lines_of body ! j)). py_int f = None
                     \<and> snd (sanitize_hiscores_stats c body)
                         = Inl (ValueError (Invalid_literal_for_int f)))))
   \<and> (i < length (HISCORES_RESPONSE_ACTIVITIES c)
      \<and> length (HISCORES_RESPONSE_SKILLS c) + i < length (lines_of body)
      \<and> length (fields_of (lines_of body ! (length (HISCORES_RESPONSE_SKILLS c) + i)))
          \<noteq> length (HISCORE_RESPONSE_ACTIVITY_COLS c)
    \<longrightarrow> (\<exists>e. snd (sanitize_hiscores_stats c body) = Inl e)
        \<and> ((\<forall>l \<in> set (take (length (HISCORES_RESPONSE_SKILLS c)) (lines_of body)).
               line_ok (HISCORES_RESPONSE_SKILL_COLS c) l)
           \<and> (\<forall>j<i. length (fields_of (lines_of body ! (length (HISCORES_RESPONSE_SKILLS c) + j)))
                        = length (HISCORE_RESPONSE_ACTIVITY_COLS c)
                     \<longrightarrow> all_integers (lines_of body ! (length (HISCORES_RESPONSE_SKILLS c) + j)))
           \<longrightarrow> (\<exists>k\<le>i. snd (sanitize_hiscores_stats c body) =
                  Inl (ValueError_from Activity_line_malformatted
                        (InvalidSchemaError
                           (Schema_invalid_for_line (HISCORE_RESPONSE_ACTIVITY_COLS c)
                              (lines_of body ! (length (HISCORES_RESPONSE_SKILLS c) + k)))))))
        \<and> (\<forall>j<i. (\<forall>l \<in> set (take (length (HISCORES_RESPONSE_SKILLS c)) (lines_of body)).
                    line_ok (HISCORES_RESPONSE_SKILL_COLS c) l)
                 \<and> (\<forall>j'<j. line_ok (HISCORE_RESPONSE_ACTIVITY_COLS c)
                              (lines_of body ! (length (HISCORES_RESPONSE_SKILLS c) + j')))
                 \<and> length (fields_of (lines_of body ! (length (HISCORES_RESPONSE_SKILLS c) + j)))
                     = length (HISCORE_RESPONSE_ACTIVITY_COLS c)
                 \<and> \<not> all_integers (lines_of body ! (length (HISCORES_RESPONSE_SKILLS c) + j))
              \<longrightarrow> (\<exists>f\<in>set (fields_of (lines_of body
                                  ! (length (HISCORES_RESPONSE_SKILLS c) + j))).
                     py_int f = None
                     \<and> snd (sanitize_hiscores_stats c body)
                         = Inl (ValueError (Invalid_literal_for_int f)))))"
proof (intro conjI impI allI)
  assume "i < length (HISCORES_RESPONSE_SKILLS c) \<and> i < length (lines_of body)
      \<and> length (fields_of (lines_of body ! i)) \<noteq> length (HISCORES_RESPONSE_SKILL_COLS c)"
  then show "\<exists>e. snd (sanitize_hiscores_stats c body) = Inl e"
    using sanitize_skill_mismatch_fails [of i c body] by blast
next
  assume "i < length (HISCORES_RESPONSE_SKILLS c) \<and> i < length (lines_of body)
      \<and> length (fields_of (lines_of body ! i)) \<noteq> length (HISCORES_RESPONSE_SKILL_COLS c)"
    and "\<forall>j<i. length (fields_of (lines_of body ! j)) = length (HISCORES_RESPONSE_SKILL_COLS c)
               \<longrightarrow> all_integers (lines_of body ! j)"
  then show "\<exists>k\<le>i. snd (sanitize_hiscores_stats c body) =
                  Inl (ValueError_from Skill_line_malformatted
                        (InvalidSchemaError
                           (Schema_invalid_for_line (HISCORES_RESPONSE_SKILL_COLS c)
                              (lines_of body ! k))))"
    using sanitize_skill_mismatch_error [of i c body] by blast
next
  fix j
  assume i: "i < length (HISCORES_RESPONSE_SKILLS c) \<and> i < length (lines_of body)
      \<and> length (fields_of (lines_of body ! i)) \<noteq> length (HISCORES_RESPONSE_SKILL_COLS c)"
    and j: "j < i"
    and h: "(\<forall>j'<j. line_ok (HISCORES_RESPONSE_SKILL_COLS c) (lines_of body ! j'))
                 \<and> length (fields_of (lines_of body ! j))
                     = length (HISCORES_RESPONSE_SKILL_COLS c)
                 \<and> \<not> all_integers (lines_of body ! j)"
  show "\<exists>f\<in>set (fields_of (lines_of body ! j)). py_int f = None
          \<and> snd (sanitize_hiscores_stats c body) = Inl (ValueError (Invalid_literal_for_int f))"
  proof (rule sanitize_skill_literal_error)
    show "j < length (HISCORES_RESPONSE_SKILLS c)" "j < length (lines_of body)"
      using i j by simp_all
  qed (use h in simp_all)
next
  assume "i < length (HISCORES_RESPONSE_ACTIVITIES c)
      \<and> length (HISCORES_RESPONSE_SKILLS c) + i < length (lines_of body)
      \<and> length (fields_of (lines_of body ! (length (HISCORES_RESPONSE_SKILLS c) + i)))
          \<noteq> length (HISCORE_RESPONSE_ACTIVITY_COLS c)"
  then show "\<exists>e. snd (sanitize_hiscores_stats c body) = Inl e"
    using sanitize_activity_mismatch_fails [of i c body] by blast
next
  assume "i < length (HISCORES_RESPONSE_ACTIVITIES c)
      \<and> length (HISCORES_RESPONSE_SKILLS c) + i < length (lines_of body)
      \<and> length (fields_of (lines_of body ! (length (HISCORES_RESPONSE_SKILLS c) + i)))
          \<noteq> length (HISCORE_RESPONSE_ACTIVITY_COLS c)"
    and "(\<forall>l \<in> set (take (length (HISCORES_RESPONSE_SKILLS c)) (lines_of body)).
               line_ok (HISCORES_RESPONSE_SKILL_COLS c) l)
           \<and> (\<forall>j<i. length (fields_of (lines_of body ! (length (HISCORES_RESPONSE_SKILLS c) + j)))
                        = length (HISCORE_RESPONSE_ACTIVITY_COLS c)
                     \<longrightarrow> all_integers (lines_of body ! (length (HISCORES_RESPONSE_SKILLS c) + j)))"
  then show "\<exists>k\<le>i. snd (sanitize_hiscores_stats c body) =
                  Inl (ValueError_from Activity_line_malformatted
                        (InvalidSchemaError
                           (Schema_invalid_for_line (HISCORE_RESPONSE_ACTIVITY_COLS c)
                              (lines_of body ! (length (HISCORES_RESPONSE_SKILLS c) + k)))))"
    using sanitize_activity_mismatch_error [of c body i] by blast
next
  fix j
  assume i: "i < length (HISCORES_RESPONSE_ACTIVITIES c)
      \<and> length (HISCORES_RESPONSE_SKILLS c) + i < length (lines_of body)
      \<and> length (fields_of (lines_of body ! (length (HISCORES_RESPONSE_SKILLS c) + i)))
          \<noteq> length (HISCORE_RESPONSE_ACTIVITY_COLS c)"
    and j: "j < i"
    and h: "(\<forall>l \<in> set (take (length (HISCORES_RESPONSE_SKILLS c)) (lines_of body)).
                    line_ok (HISCORES_RESPONSE_SKILL_COLS c) l)
                 \<and> (\<forall>j'<j. line_ok (HISCORE_RESPONSE_ACTIVITY_COLS c)
                              (lines_of body ! (length (HISCORES_RESPONSE_SKILLS c) + j')))
                 \<and> length (fields_of (lines_of body ! (length (HISCORES_RESPONSE_SKILLS c) + j)))
                     = length (HISCORE_RESPONSE_ACTIVITY_COLS c)
                 \<and> \<not> all_integers (lines_of body ! (length (HISCORES_RESPONSE_SKILLS c) + j))"
  show "\<exists>f\<in>set (fields_of (lines_of body ! (length (HISCORES_RESPONSE_SKILLS c) + j))).
          py_int f = None
          \<and> snd (sanitize_hiscores_stats c body) = Inl (ValueError (Invalid_literal_for_int f))"
  proof (rule sanitize_activity_literal_error)
    show "j < length (HISCORES_RESPONSE_ACTIVITIES c)"
      "length (HISCORES_RESPONSE_SKILLS c) + j < length (lines_of body)"
      using i j by simp_all
  qed (use h in simp_all)
qed

lemma lines_of_payload_short_skill:
  "lines_of payload_short_skill = [''1,2,3'', ''4,5'', ''-1,-1'', ''7,8'']"
  by code_simp

lemma lines_of_payload_short_activity:
  "lines_of payload_short_activity = [''1,2,3'', ''4,5,6'', ''-1,-1'', ''7'']"
  by code_simp

lemma lines_of_payload_short_letters: "lines_of payload_short_letters = [''a,b'', ''4,5'']"
  by code_simp

lemma lines_of_payload_bad_literal: "lines_of payload_bad_literal = [''a,b,c'', ''4,5'']"
  by code_simp

lemma lines_of_payload_bad_activity_literal:
  "lines_of payload_bad_activity_literal = [''1,2,3'', ''4,5,6'', ''x,y'', ''7'']"
  by code_simp

lemma fields_of_examples:
  "length (fields_of ''4,5'') = 2" "length (fields_of ''7'') = 1"
  "length (fields_of ''a,b'') = 2" "fields_of ''a,b,c'' = [''a'', ''b'', ''c'']"
  "fields_of ''x,y'' = [''x'', ''y'']"
  by code_simp+

lemma all_integers_examples:
  "all_integers ''1,2,3''" "all_integers ''-1,-1''"
  "\<not> all_integers ''a,b,c''" "\<not> all_integers ''x,y''"
  by code_simp+

theorem sanitize_field_count_witness:
  "(\<exists>e. snd (sanitize_hiscores_stats constants_example payload_short_skill) = Inl e)
   \<and> (\<exists>k\<le>1. snd (sanitize_hiscores_stats constants_example payload_short_skill) =
          Inl (ValueError_from Skill_line_malformatted
                (InvalidSchemaError
                   (Schema_invalid_for_line (HISCORES_RESPONSE_SKILL_COLS constants_example)
                      (lines_of payload_short_skill ! k)))))
   \<and> (\<exists>k\<le>1. snd (sanitize_hiscores_stats constants_example payload_short_letters) =
          Inl (ValueError_from Skill_line_malformatted
                (InvalidSchemaError
                   (Schema_invalid_for_line (HISCORES_RESPONSE_SKILL_COLS constants_example)
                      (lines_of payload_short_letters ! k)))))
   \<and> (\<exists>f\<in>set (fields_of (lines_of payload_bad_literal ! 0)). py_int f = None
          \<and> snd (sanitize_hiscores_stats constants_example payload_bad_literal)
              = Inl (ValueError (Invalid_literal_for_int f)))
   \<and> (\<exists>k\<le>1. snd (sanitize_hiscores_stats constants_example payload_short_activity) =
          Inl (ValueError_from Activity_line_malformatted
                (InvalidSchemaError
                   (Schema_invalid_for_line (HISCORE_RESPONSE_ACTIVITY_COLS constants_example)
                      (lines_of payload_short_activity
                         ! (length (HISCORES_RESPONSE_SKILLS constants_example) + k))))))
   \<and> (\<exists>f\<in>set (fields_of (lines_of payload_bad_activity_literal
                              ! (length (HISCORES_RESPONSE_SKILLS constants_example) + 0))).
          py_int f = None
          \<and> snd (sanitize_hiscores_stats constants_example payload_bad_activity_literal)
              = Inl (ValueError (Invalid_literal_for_int f)))"
proof -
  have s1: "1 < length (HISCORES_RESPONSE_SKILLS constants_example)
      \<and> 1 < length (lines_of payload_short_skill)
      \<and> length (fields_of (lines_of payload_short_skill ! 1))
          \<noteq> length (HISCORES_RESPONSE_SKILL_COLS constants_example)"
    by (simp add: lines_of_payload_short_skill constants_example_def fields_of_examples)
  have s2: "\<forall>j<1. length (fields_of (lines_of payload_short_skill ! j))
                     = length (HISCORES_RESPONSE_SKILL_COLS constants_example)
                  \<longrightarrow> all_integers (lines_of payload_short_skill ! j)"
    by (simp add: lines_of_payload_short_skill all_integers_examples)
  note t1 = sanitize_field_count [of 1 constants_example payload_short_skill,
      THEN conjunct1, THEN mp, OF s1]
  have c1: "\<exists>e. snd (sanitize_hiscores_stats constants_example payload_short_skill) = Inl e"
    by (rule t1 [THEN conjunct1])
  have c2: "\<exists>k\<le>1. snd (sanitize_hiscores_stats constants_example payload_short_skill) =
          Inl (ValueError_from Skill_line_malformatted
                (InvalidSchemaError
                   (Schema_invalid_for_line (HISCORES_RESPONSE_SKILL_COLS constants_example)
                      (lines_of payload_short_skill ! k))))"
    by (rule t1 [THEN conjunct2, THEN conjunct1, THEN mp, OF s2])
  have l1: "1 < length (HISCORES_RESPONSE_SKILLS constants_example)
      \<and> 1 < length (lines_of payload_short_letters)
      \<and> length (fields_of (lines_of payload_short_letters ! 1))
          \<noteq> length (HISCORES_RESPONSE_SKILL_COLS constants_example)"
    by (simp add: lines_of_payload_short_letters constants_example_def fields_of_examples)
  have l2: "\<forall>j<1. length (fields_of (lines_of payload_short_letters ! j))
                     = length (HISCORES_RESPONSE_SKILL_COLS constants_example)
                  \<longrightarrow> all_integers (lines_of payload_short_letters ! j)"
    by (simp add: lines_of_payload_short_letters constants_example_def fields_of_examples)
  have c3: "\<exists>k\<le>1. snd (sanitize_hiscores_stats constants_example payload_short_letters) =
          Inl (ValueError_from Skill_line_malformatted
                (InvalidSchemaError
                   (Schema_invalid_for_line (HISCORES_RESPONSE_SKILL_COLS constants_example)
                      (lines_of payload_short_letters ! k))))"
    by (rule sanitize_field_count [of 1 constants_example payload_short_letters,
          THEN conjunct1, THEN mp, OF l1, THEN conjunct2, THEN conjunct1, THEN mp, OF l2])
  have b1: "1 < length (HISCORES_RESPONSE_SKILLS constants_example)
      \<and> 1 < length (lines_of payload_bad_literal)
      \<and> length (fields_of (lines_of payload_bad_literal ! 1))
          \<noteq> length (HISCORES_RESPONSE_SKILL_COLS constants_example)"
    by (simp add: lines_of_payload_bad_literal constants_example_def fields_of_examples)
  have b2: "(\<forall>j'<0. line_ok (HISCORES_RESPONSE_SKILL_COLS constants_example)
                       (lines_of payload_bad_literal ! j'))
             \<and> length (fields_of (lines_of payload_bad_literal ! 0))
                 = length (HISCORES_RESPONSE_SKILL_COLS constants_example)
             \<and> \<not> all_integers (lines_of payload_bad_literal ! 0)"
    by (simp add: lines_of_payload_bad_literal constants_example_def fields_of_examples
          all_integers_examples)
  have c4: "\<exists>f\<in>set (fields_of (lines_of payload_bad_literal ! 0)). py_int f = None
          \<and> snd (sanitize_hiscores_stats constants_example payload_bad_literal)
              = Inl (ValueError (Invalid_literal_for_int f))"
    using sanitize_field_count [of 1 constants_example payload_bad_literal,
          THEN conjunct1, THEN mp, OF b1, THEN conjunct2, THEN conjunct2, THEN spec, of 0] b2
    by simp
  have a1: "1 < length (HISCORES_RESPONSE_ACTIVITIES constants_example)
      \<and> length (HISCORES_RESPONSE_SKILLS constants_example) + 1 < length (lines_of payload_short_activity)
      \<and> length (fields_of (lines_of payload_short_activity
                          ! (length (HISCORES_RESPONSE_SKILLS constants_example) + 1)))
          \<noteq> length (HISCORE_RESPONSE_ACTIVITY_COLS constants_example)"
    by (simp add: lines_of_payload_short_activity constants_example_def fields_of_examples)
  have a2: "(\<forall>l \<in> set (take (length (HISCORES_RESPONSE_SKILLS constants_example))
                        (lines_of payload_short_activity)).
               line_ok (HISCORES_RESPONSE_SKILL_COLS constants_example) l)
          \<and> (\<forall>j<1. length (fields_of (lines_of payload_short_activity
                          ! (length (HISCORES_RESPONSE_SKILLS constants_example) + j)))
                        = length (HISCORE_RESPONSE_ACTIVITY_COLS constants_example)
                     \<longrightarrow> all_integers (lines_of payload_short_activity
                          ! (length (HISCORES_RESPONSE_SKILLS constants_example) + j)))"
    by (simp add: lines_of_payload_short_activity constants_example_def line_ok_examples
          all_integers_examples)
  have c5: "\<exists>k\<le>1. snd (sanitize_hiscores_stats constants_example payload_short_activity) =
          Inl (ValueError_from Activity_line_malformatted
                (InvalidSchemaError
                   (Schema_invalid_for_line (HISCORE_RESPONSE_ACTIVITY_COLS constants_example)
                      (lines_of payload_short_activity
                         ! (length (HISCORES_RESPONSE_SKILLS constants_example) + k)))))"
    by (rule sanitize_field_count [of 1 constants_example payload_short_activity,
          THEN conjunct2, THEN mp, OF a1, THEN conjunct2, THEN conjunct1, THEN mp, OF a2])
  have d1: "1 < length (HISCORES_RESPONSE_ACTIVITIES constants_example)
      \<and> length (HISCORES_RESPONSE_SKILLS constants_example) + 1
          < length (lines_of payload_bad_activity_literal)
      \<and> length (fields_of (lines_of payload_bad_activity_literal
                          ! (length (HISCORES_RESPONSE_SKILLS constants_example) + 1)))
          \<noteq> length (HISCORE_RESPONSE_ACTIVITY_COLS constants_example)"
    by (simp add: lines_of_payload_bad_activity_literal constants_example_def fields_of_examples)
  have d2: "(\<forall>l \<in> set (take (length (HISCORES_RESPONSE_SKILLS constants_example))
                        (lines_of payload_bad_activity_literal)).
               line_ok (HISCORES_RESPONSE_SKILL_COLS constants_example) l)
          \<and> (\<forall>j'<0. line_ok (HISCORE_RESPONSE_ACTIVITY_COLS constants_example)
                 (lines_of payload_bad_activity_literal
                    ! (length (HISCORES_RESPONSE_SKILLS constants_example) + j')))
          \<and> length (fields_of (lines_of payload_bad_activity_literal
                          ! (length (HISCORES_RESPONSE_SKILLS constants_example) + 0)))
              = length (HISCORE_RESPONSE_ACTIVITY_COLS constants_example)
          \<and> \<not> all_integers (lines_of payload_bad_activity_literal
                          ! (length (HISCORES_RESPONSE_SKILLS constants_example) + 0))"
    by (simp add: lines_of_payload_bad_activity_literal constants_example_def line_ok_examples
          fields_of_examples all_integers_examples)
  have c6: "\<exists>f\<in>set (fields_of (lines_of payload_bad_activity_literal
                              ! (length (HISCORES_RESPONSE_SKILLS constants_example) + 0))).
          py_int f = None
          \<and> snd (sanitize_hiscores_stats constants_example payload_bad_activity_literal)
              = Inl (ValueError (Invalid_literal_for_int f))"
    using sanitize_field_count [of 1 constants_example payload_bad_activity_literal,
          THEN conjunct2, THEN mp, OF d1, THEN conjunct2, THEN conjunct2, THEN spec, of 0] d2
    by simp
  from c1 c2 c3 c4 c5 c6 show ?thesis by blast
qed

section \<open>The enricher\<close>

lemma str_split_no_sep: "sep \<notin> set s \<Longrightarrow> str_split sep s = [s]"
  by (induction s) auto

lemma str_split_append:
  "sep \<notin> set a \<Longrightarrow> str_split sep (a @ sep # b) = a # str_split sep b"
  by (induction a) auto

lemma join_str_split: "join [sep] (str_split sep s) = s"
proof (induction s)
  case Nil
  show ?case by simp
next
  case (Cons c cs)
  obtain w ws where ws: "str_split sep cs = w # ws"
    using str_split_not_Nil [of sep cs] by (cases "str_split sep cs") auto
  with Cons show ?case by (cases ws) auto
qed

lemma urlparse_query_no_mark: "CHR ''?'' \<notin> set u \<Longrightarrow> urlparse_query u = []"
proof -
  assume "CHR ''?'' \<notin> set u"
  then have "CHR ''?'' \<notin> set (takeWhile (\<lambda>c. c \<noteq> CHR ''#'') u)"
    by (auto dest: set_takeWhileD)
  then have e: "dropWhile (\<lambda>c. c \<noteq> CHR ''?'') (takeWhile (\<lambda>c. c \<noteq> CHR ''#'') u) = []"
    by (auto simp: dropWhile_eq_Nil_conv)
  show ?thesis by (simp only: urlparse_query_def Let_def e drop_Nil)
qed

lemma process_unfold:
  assumes "sanitize_hiscores_stats c (text r) = (logged, Inr st)"
  shows "process_hiscores_response c now r =
     (let query = str_split CHR ''='' (urlparse_query (request_url r))
      in if length query \<noteq> 2 \<or> query ! 0 \<noteq> ''player''
         then (logged, Inl (ValueError (Invalid_query (urlparse_query (request_url r)))))
         else (logged, Inr \<lparr> skills = skills st, activities = activities st,
                          player = replace_char CHR ''+'' CHR '' '' (query ! 1),
                          timestamp = now \<rparr>))"
  using assms by (simp add: process_hiscores_response_def Let_def join_str_split [of "CHR ''=''", simplified])

lemma process_player:
  assumes "sanitize_hiscores_stats c (text r) = (logged, Inr st)"
      and "urlparse_query (request_url r) = ''player='' @ v" and "CHR ''='' \<notin> set v"
  shows "process_hiscores_response c now r =
           (logged, Inr \<lparr> skills = skills st, activities = activities st,
                          player = replace_char CHR ''+'' CHR '' '' v, timestamp = now \<rparr>)"
proof -
  have "str_split CHR ''='' (''player'' @ CHR ''='' # v) = ''player'' # str_split CHR ''='' v"
    by (rule str_split_append) simp
  then have "str_split CHR ''='' (urlparse_query (request_url r)) = [''player'', v]"
    using assms(2,3) by (simp add: str_split_no_sep)
  then show ?thesis unfolding process_unfold [OF assms(1)] by simp
qed

lemma process_two_parameters:
  assumes "sanitize_hiscores_stats c (text r) = (logged, Inr st)"
      and "urlparse_query (request_url r) = k1 @ ''='' @ v1 @ ''&'' @ k2 @ ''='' @ v2"
  shows "process_hiscores_response c now r =
           (logged, Inl (ValueError (Invalid_query (urlparse_query (request_url r)))))"
proof -
  have "2 \<le> length (filter (\<lambda>c. c = CHR ''='') (urlparse_query (request_url r)))"
    unfolding assms(2) by simp
  then have "length (str_split CHR ''='' (urlparse_query (request_url r))) \<noteq> 2"
    by (simp add: length_str_split)
  then show ?thesis unfolding process_unfold [OF assms(1)] by simp
qed

lemma process_empty_query:
  assumes "sanitize_hiscores_stats c (text r) = (logged, Inr st)"
      and "urlparse_query (request_url r) = []"
  shows "process_hiscores_response c now r = (logged, Inl (ValueError (Invalid_query [])))"
  unfolding process_unfold [OF assms(1)] by (simp add: assms(2))

lemma process_given_parse:
  assumes "sanitize_hiscores_stats c (text r) = (logged, Inr st)"
  shows "(urlparse_query (request_url r) = ''player=Zezima'' \<longrightarrow>
            process_hiscores_response c now r =
              (logged, Inr \<lparr> skills = skills st, activities = activities st,
                             player = ''Zezima'', timestamp = now \<rparr>))
       \<and> (urlparse_query (request_url r) = ''player=Player+One'' \<longrightarrow>
            process_hiscores_response c now r =
              (logged, Inr \<lparr> skills = skills st, activities = activities st,
                             player = ''Player One'', timestamp = now \<rparr>))
       \<and> (\<forall>v. urlparse_query (request_url r) = ''player='' @ v \<and> CHR ''='' \<notin> set v \<longrightarrow>
            process_hiscores_response c now r =
              (logged, Inr \<lparr> skills = skills st, activities = activities st,
                             player = map (\<lambda>x. if x = CHR ''+'' then CHR '' '' else x) v,
                             timestamp = now \<rparr>))
       \<and> (urlparse_query (request_url r) = [] \<longrightarrow>
            process_hiscores_response c now r = (logged, Inl (ValueError (Invalid_query []))))
       \<and> (CHR ''?'' \<notin> set (request_url r) \<longrightarrow>
            process_hiscores_response c now r = (logged, Inl (ValueError (Invalid_query []))))
       \<and> (\<forall>k1 v1 k2 v2.
            urlparse_query (request_url r) = k1 @ ''='' @ v1 @ ''&'' @ k2 @ ''='' @ v2 \<longrightarrow>
            process_hiscores_response c now r =
              (logged, Inl (ValueError (Invalid_query (urlparse_query (request_url r))))))"
proof (intro conjI allI impI)
  assume q: "urlparse_query (request_url r) = ''player=Zezima''"
  have "process_hiscores_response c now r =
          (logged, Inr \<lparr> skills = skills st, activities = activities st,
                         player = replace_char CHR ''+'' CHR '' '' ''Zezima'', timestamp = now \<rparr>)"
    by (rule process_player [OF assms]) (simp_all add: q)
  then show "process_hiscores_response c now r =
              (logged, Inr \<lparr> skills = skills st, activities = activities st,
                             player = ''Zezima'', timestamp = now \<rparr>)"
    by (simp add: replace_char_def)
next
  assume q: "urlparse_query (request_url r) = ''player=Player+One''"
  have "process_hiscores_response c now r =
          (logged, Inr \<lparr> skills = skills st, activities = activities st,
                         player = replace_char CHR ''+'' CHR '' '' ''Player+One'', timestamp = now \<rparr>)"
    by (rule process_player [OF assms]) (simp_all add: q)
  then show "process_hiscores_response c now r =
              (logged, Inr \<lparr> skills = skills st, activities = activities st,
                             player = ''Player One'', timestamp = now \<rparr>)"
    by (simp add: replace_char_def)
next
  fix v
  assume "urlparse_query (request_url r) = ''player='' @ v \<and> CHR ''='' \<notin> set v"
  then show "process_hiscores_response c now r =
              (logged, Inr \<lparr> skills = skills st, activities = activities st,
                             player = map (\<lambda>x. if x = CHR ''+'' then CHR '' '' else x) v,
                             timestamp = now \<rparr>)"
    using process_player [OF assms, of v now] by (simp add: replace_char_def)
next
  assume "urlparse_query (request_url r) = []"
  then show "process_hiscores_response c now r = (logged, Inl (ValueError (Invalid_query [])))"
    by (rule process_empty_query [OF assms])
next
  assume "CHR ''?'' \<notin> set (request_url r)"
  then have "urlparse_query (request_url r) = []" by (rule urlparse_query_no_mark)
  then show "process_hiscores_response c now r = (logged, Inl (ValueError (Invalid_query [])))"
    by (rule process_empty_query [OF assms])
next
  fix k1 v1 k2 v2
  assume "urlparse_query (request_url r) = k1 @ ''='' @ v1 @ ''&'' @ k2 @ ''='' @ v2"
  then show "process_hiscores_response c now r =
              (logged, Inl (ValueError (Invalid_query (urlparse_query (request_url r)))))"
    by (rule process_two_parameters [OF assms])
qed

lemma process_parse_error:
  "sanitize_hiscores_stats c (text r) = (logged, Inl e) \<Longrightarrow>
   process_hiscores_response c now r = (logged, Inl e)"
  by (simp add: process_hiscores_response_def)

lemma process_bad_query_fails:
  assumes "urlparse_query (request_url r) = [] \<or> CHR ''?'' \<notin> set (request_url r)
           \<or> (\<exists>k1 v1 k2 v2.
                 urlparse_query (request_url r) = k1 @ ''='' @ v1 @ ''&'' @ k2 @ ''='' @ v2)"
  shows "\<exists>e. snd (process_hiscores_response c now r) = Inl e"
proof -
  obtain logged res where san: "sanitize_hiscores_stats c (text r) = (logged, res)"
    by (cases "sanitize_hiscores_stats c (text r)")
  show ?thesis
  proof (cases res)
    case (Inl e)
    with san have "process_hiscores_response c now r = (logged, Inl e)"
      by (simp add: process_parse_error)
    then show ?thesis by simp
  next
    case (Inr st)
    with san have s: "sanitize_hiscores_stats c (text r) = (logged, Inr st)" by simp
    from assms process_given_parse [OF s, of now]
    have "\<exists>e. process_hiscores_response c now r = (logged, Inl e)" by blast
    then show ?thesis by auto
  qed
qed

text \<open>
  Claim C6. Given a response whose body the parser accepts, \<^verbatim>\<open>process_hiscores_response\<close>
  takes the player from the query of the request URL: the query \<^verbatim>\<open>player=Zezima\<close> gives
  the player \<^verbatim>\<open>Zezima\<close>, the query \<^verbatim>\<open>player=Player+One\<close> gives \<^verbatim>\<open>Player One\<close>, and in
  general every \<^verbatim>\<open>+\<close> of the value becomes a space. A query that is empty, or missing
  from the URL, or made of two \<^verbatim>\<open>key=value\<close> parameters, raises the \<^verbatim>\<open>ValueError\<close> of an
  invalid query, and no structure is returned.
\<close>

theorem process_hiscores_response_player:
  "(urlparse_query (request_url r) = [] \<or> CHR ''?'' \<notin> set (request_url r)
      \<or> (\<exists>k1 v1 k2 v2.
            urlparse_query (request_url r) = k1 @ ''='' @ v1 @ ''&'' @ k2 @ ''='' @ v2)
    \<longrightarrow> (\<exists>e. snd (process_hiscores_response c now r) = Inl e))
   \<and> (sanitize_hiscores_stats c (text r) = (logged, Inr st) \<longrightarrow>
       (urlparse_query (request_url r) = ''player=Zezima'' \<longrightarrow>
            process_hiscores_response c now r =
              (logged, Inr \<lparr> skills = skills st, activities = activities st,
                             player = ''Zezima'', timestamp = now \<rparr>))
       \<and> (urlparse_query (request_url r) = ''player=Player+One'' \<longrightarrow>
            process_hiscores_response c now r =
              (logged, Inr \<lparr> skills = skills st, activities = activities st,
                             player = ''Player One'', timestamp = now \<rparr>))
       \<and> (\<forall>v. urlparse_query (request_url r) = ''player='' @ v \<and> CHR ''='' \<notin> set v \<longrightarrow>
            process_hiscores_response c now r =
              (logged, Inr \<lparr> skills = skills st, activities = activities st,
                             player = map (\<lambda>x. if x = CHR ''+'' then CHR '' '' else x) v,
                             timestamp = now \<rparr>))
       \<and> (urlparse_query (request_url r) = [] \<longrightarrow>
            process_hiscores_response c now r = (logged, Inl (ValueError (Invalid_query []))))
       \<and> (CHR ''?'' \<notin> set (request_url r) \<longrightarrow>
            process_hiscores_response c now r = (logged, Inl (ValueError (Invalid_query []))))
       \<and> (\<forall>k1 v1 k2 v2.
            urlparse_query (request_url r) = k1 @ ''='' @ v1 @ ''&'' @ k2 @ ''='' @ v2 \<longrightarrow>
            process_hiscores_response c now r =
              (logged, Inl (ValueError (Invalid_query (urlparse_query (request_url r)))))))"
proof (intro conjI impI)
  assume "urlparse_query (request_url r) = [] \<or> CHR ''?'' \<notin> set (request_url r)
      \<or> (\<exists>k1 v1 k2 v2.
            urlparse_query (request_url r) = k1 @ ''='' @ v1 @ ''&'' @ k2 @ ''='' @ v2)"
  then show "\<exists>e. snd (process_hiscores_response c now r) = Inl e"
    by (rule process_bad_query_fails)
qed (use process_given_parse [of c r logged st now] in blast)+

lemma sanitize_payload_example:
  "sanitize_hiscores_stats constants_example payload_example =
     ([], Inr \<lparr> skills = [(''Overall'', [(''rank'', 1), (''level'', 2), (''experience'', 3)]),
                          (''Attack'', [(''rank'', 4), (''level'', 5), (''experience'', 6)])],
                activities = [(''League Points'', [(''rank'', -1), (''score'', -1)]),
                              (''Clue Scrolls (all)'', [(''rank'', 7), (''score'', 8)])] \<rparr>)"
  by code_simp

lemma urlparse_query_examples:
  "urlparse_query (request_url zezima_response) = ''player=Zezima''"
  "urlparse_query (request_url player_one_response) = ''player=Player+One''"
  "urlparse_query (request_url two_parameters_response)
     = ''player'' @ ''='' @ ''Zezima'' @ ''&'' @ ''mode'' @ ''='' @ ''iron''"
  "CHR ''?'' \<notin> set (request_url no_query_response)"
  by code_simp+

lemma text_examples:
  "text zezima_response = payload_example" "text player_one_response = payload_example"
  "text two_parameters_response = payload_example" "text no_query_response = payload_example"
  by (simp_all add: zezima_response_def player_one_response_def two_parameters_response_def
        no_query_response_def)

theorem process_hiscores_response_player_witness:
  "map_sum id player
     (snd (process_hiscores_response constants_example ''2026-11-04 10:00:00'' zezima_response))
     = Inr ''Zezima''
   \<and> map_sum id player
     (snd (process_hiscores_response constants_example ''2026-11-04 10:00:00'' player_one_response))
     = Inr ''Player One''
   \<and> snd (process_hiscores_response constants_example ''2026-11-04 10:00:00''
            two_parameters_response)
     = Inl (ValueError (Invalid_query ''player=Zezima&mode=iron''))
   \<and> snd (process_hiscores_response constants_example ''2026-11-04 10:00:00'' no_query_response)
     = Inl (ValueError (Invalid_query []))
   \<and> (\<exists>e. snd (process_hiscores_response constants_example ''2026-11-04 10:00:00''
                 (no_query_response \<lparr> text := [] \<rparr>)) = Inl e)"
proof -
  note s = sanitize_payload_example
  have q: "CHR ''?'' \<notin> set (request_url (no_query_response \<lparr> text := [] \<rparr>))"
    using urlparse_query_examples(4) by simp
  have e: "\<exists>e. snd (process_hiscores_response constants_example ''2026-11-04 10:00:00''
                 (no_query_response \<lparr> text := [] \<rparr>)) = Inl e"
    using process_hiscores_response_player [where r = "no_query_response \<lparr> text := [] \<rparr>",
        THEN conjunct1] q by blast
  have a: "map_sum id player
     (snd (process_hiscores_response constants_example ''2026-11-04 10:00:00'' zezima_response))
     = Inr ''Zezima''"
    using process_hiscores_response_player [where r = zezima_response, THEN conjunct2, THEN mp, unfolded text_examples, OF s]
      urlparse_query_examples(1) by simp
  have b: "map_sum id player
     (snd (process_hiscores_response constants_example ''2026-11-04 10:00:00'' player_one_response))
     = Inr ''Player One''"
    using process_hiscores_response_player [where r = player_one_response, THEN conjunct2, THEN mp, unfolded text_examples, OF s]
      urlparse_query_examples(2) by simp
  have c: "snd (process_hiscores_response constants_example ''2026-11-04 10:00:00''
            two_parameters_response)
     = Inl (ValueError (Invalid_query ''player=Zezima&mode=iron''))"
    using process_hiscores_response_player [where r = two_parameters_response,
        THEN conjunct2, THEN mp, unfolded text_examples, OF s, THEN conjunct2, THEN conjunct2, THEN conjunct2,
        THEN conjunct2, THEN conjunct2, rule_format, OF urlparse_query_examples(3)]
      urlparse_query_examples(3) by simp
  have d: "snd (process_hiscores_response constants_example ''2026-11-04 10:00:00'' no_query_response)
     = Inl (ValueError (Invalid_query []))"
    using process_hiscores_response_player [where r = no_query_response, THEN conjunct2, THEN mp, unfolded text_examples, OF s]
      urlparse_query_examples(4) by simp
  from a b c d e show ?thesis by blast
qed

end
